theory Spec2Isabelle
  imports Complex_Main "HOL-Library.AList" "HOL-Library.Char_ord" "HOL-Library.List_Lexorder"
begin

section \<open>Python values, parameter bundles and errors\<close>

text \<open>
  The errors the source raises, or that the Python run time raises on the paths the
  source takes. \<open>ValueError\<close> and \<open>RuntimeError\<close> carry the message of the source,
  which is what tells two raises of the same class apart.
\<close>

datatype error =
    ValueError string
  | RuntimeError string
  | IndexError
  | UnboundLocalError string
  | AttributeError string
  | TypeError
  | LinAlgError

text \<open>
  A field of a parameter bundle, and a momentum argument, is a float or a sequence of
  floats. \<open>isinstance(value, collections.Iterable)\<close> is true of the sequence only.
\<close>

datatype pyval = Num real | Seq "real list"

fun is_Iterable :: "pyval \<Rightarrow> bool" where
  "is_Iterable (Num x) = False"
| "is_Iterable (Seq xs) = True"

text \<open>Python's truth value of a float and of a list, as \<open>any(...)\<close> reads it.\<close>

fun truthy :: "pyval \<Rightarrow> bool" where
  "truthy (Num x) = (x \<noteq> 0)"
| "truthy (Seq xs) = (xs \<noteq> [])"

text \<open>
  \<open>SimpleNamespace.__dict__\<close>: an insertion-ordered dictionary from field names to
  values. \<open>AList.update\<close> is the dictionary's item assignment: an existing key keeps its
  place, a new key goes last.
\<close>

type_synonym namespace = "(string \<times> pyval) list"

text \<open>Attribute access \<open>p.name\<close> where the code needs a number.\<close>

definition getattr :: "namespace \<Rightarrow> string \<Rightarrow> error + real" where
  "getattr p name =
     (case map_of p name of
        None \<Rightarrow> Inl (AttributeError name)
      | Some (Num x) \<Rightarrow> Inr x
      | Some (Seq xs) \<Rightarrow> Inl TypeError)"

section \<open>The lattice and model builder: \<open>haldaneModel\<close>\<close>

text \<open>The two sublattices \<open>a, b = lat.sublattices\<close>.\<close>

datatype family = Sublattice_a | Sublattice_b

text \<open>
  \<open>kwant.builder.HoppingKind(delta, family_a, family_b)\<close>: the hoppings from every site of
  \<open>family_b\<close> with tag \<open>t\<close> to the site of \<open>family_a\<close> with tag \<open>t + delta\<close>.
\<close>

datatype hopping_kind = HoppingKind "int \<times> int" family family

fun delta :: "hopping_kind \<Rightarrow> int \<times> int" where
  "delta (HoppingKind d fa fb) = d"

fun family_a :: "hopping_kind \<Rightarrow> family" where
  "family_a (HoppingKind d fa fb) = fa"

fun family_b :: "hopping_kind \<Rightarrow> family" where
  "family_b (HoppingKind d fa fb) = fb"

text \<open>
  \<open>syst.symmetry\<close>: no translational symmetry, or \<open>kwant.TranslationalSymmetry\<close> with
  one or with two periods. The systems of this repository have one period (the ribbons)
  or two (the infinite sheet); a symmetry with three periods is outside the model.
\<close>

datatype symmetry =
    NoSymmetry
  | TranslationalSymmetry1 "real list"
  | TranslationalSymmetry2 "real list" "real list"

text \<open>
  The value functions of the model. Of their arguments only the sublattice of the site
  (for \<open>onsite\<close>) and the parameter bundle \<open>p\<close> are read.
\<close>

definition onsite :: "family \<Rightarrow> namespace \<Rightarrow> error + complex" where
  "onsite fam p =
     (case getattr p ''m'' of
        Inl e \<Rightarrow> Inl e
      | Inr m \<Rightarrow> (if fam = Sublattice_a then Inr (complex_of_real m)
                 else Inr (- complex_of_real m)))"

definition nnHopping :: "namespace \<Rightarrow> error + complex" where
  "nnHopping p =
     (case getattr p ''t'' of Inl e \<Rightarrow> Inl e | Inr t \<Rightarrow> Inr (complex_of_real t))"

definition nnnHopping :: "namespace \<Rightarrow> error + complex" where
  "nnnHopping p =
     (case getattr p ''t_2'' of Inl e \<Rightarrow> Inl e | Inr t2 \<Rightarrow> Inr (\<i> * complex_of_real t2))"

definition nnnHoppings_a :: "hopping_kind list" where
  "nnnHoppings_a =
     [HoppingKind (-1, 0) Sublattice_a Sublattice_a,
      HoppingKind (0, 1) Sublattice_a Sublattice_a,
      HoppingKind (1, -1) Sublattice_a Sublattice_a]"

definition nnnHoppings_b :: "hopping_kind list" where
  "nnnHoppings_b =
     [HoppingKind (1, 0) Sublattice_b Sublattice_b,
      HoppingKind (0, -1) Sublattice_b Sublattice_b,
      HoppingKind (-1, 1) Sublattice_b Sublattice_b]"

definition ribbonShapeZigzag :: "real \<Rightarrow> real \<times> real \<Rightarrow> bool" where
  "ribbonShapeZigzag w pos =
     (- 0.5 / sqrt 3 - 0.1 \<le> snd pos \<and> snd pos < sqrt 3 * w / 2 + 0.01)"

definition ribbonShapeArmchair :: "real \<Rightarrow> real \<times> real \<Rightarrow> bool" where
  "ribbonShapeArmchair w pos = (- 1 \<le> fst pos \<and> fst pos < w)"

text \<open>
  The un-finalized \<open>kwant.Builder\<close>, as far as \<open>haldaneModel\<close> fills it: the symmetry, the
  shape whose sites get the onsite term, the onsite function, and the hopping
  assignments in the order of the source.
\<close>

record builder =
  symmetry :: symmetry
  site_shape :: "real \<times> real \<Rightarrow> bool"
  onsite_term :: "family \<Rightarrow> namespace \<Rightarrow> error + complex"
  hopping_terms :: "(hopping_kind list \<times> (namespace \<Rightarrow> error + complex)) list"

text \<open>
  \<open>haldaneModel(w, boundary, pVecs, bAtoms)\<close>. The nearest-neighbour kinds come from
  kwant's geometric search \<open>lat.neighbors()\<close>, which is not code of this repository: its
  result is the parameter \<open>neighbors\<close>. Unpacking \<open>a, b = lat.sublattices\<close> needs
  exactly two basis atoms, and kwant accepts the two-component offsets of the hopping
  kinds only on a lattice with exactly two primitive vectors.
\<close>

definition haldaneModel ::
  "hopping_kind list \<Rightarrow> real \<Rightarrow> string \<Rightarrow> real list list \<Rightarrow> real list list \<Rightarrow> error + builder"
where
  "haldaneModel neighbors w boundary pVecs bAtoms =
     (if list_ex (\<lambda>v. length v \<noteq> 2) pVecs then Inl (ValueError ''haldane model must be 2D'')
      else if list_ex (\<lambda>c. length c \<noteq> 2) bAtoms then Inl (ValueError ''haldane model must be 2D'')
      else if length pVecs > 2 then Inl (ValueError ''kwant: primitive vectors'')
      else if length bAtoms \<noteq> 2 then Inl (ValueError ''unpack lat.sublattices'')
      else if length pVecs \<noteq> 2 then Inl (ValueError ''kwant: primitive vectors'')
      else Inr
        \<lparr> symmetry =
            (if boundary = ''zigzag'' then TranslationalSymmetry1 [1, 0]
             else if boundary = ''armchair'' then TranslationalSymmetry1 [0, sqrt 3]
             else TranslationalSymmetry2 (pVecs ! 0) (pVecs ! 1)),
          site_shape =
            (if boundary = ''zigzag'' then ribbonShapeZigzag w
             else if boundary = ''armchair'' then ribbonShapeArmchair w
             else (\<lambda>pos. True)),
          onsite_term = onsite,
          hopping_terms =
            [(neighbors, nnHopping), (nnnHoppings_a, nnnHopping), (nnnHoppings_b, nnnHopping)] \<rparr>)"

text \<open>The default arguments of \<open>haldaneModel\<close>.\<close>

definition default_pVecs :: "real list list" where
  "default_pVecs = [[1, 0], [1 / 2, sqrt 3 / 2]]"

definition default_bAtoms :: "real list list" where
  "default_bAtoms = [[0, 0], [0, 1 / sqrt 3]]"

section \<open>kwant: the Hamiltonian of a finalized, wrapped-around system\<close>

text \<open>
  kwant is not code of this repository. What
  \<open>kwant.wraparound.wraparound(syst).finalized().hamiltonian_submatrix\<close> computes is
  modelled after kwant's builder and \<open>wraparound\<close>. The finalized system has the sites of
  one fundamental domain, here given by their sublattices, and bonds between them. A
  bond \<open>(i, j, elem, f)\<close> is a hopping to site \<open>i\<close> from the image of site \<open>j\<close> under the
  translation \<open>elem\<close>, with the value function \<open>f\<close>: at the lattice momenta \<open>k\<close> it adds
  \<open>pv = exp(i elem . k) * f(p)\<close> to the entry \<open>(i, j)\<close> and the conjugate of \<open>pv\<close> to the entry
  \<open>(j, i)\<close>, so a bond from a site to its own image adds \<open>pv + conj(pv)\<close> to the diagonal.
  The onsite value of each site goes on the diagonal. Which sites and bonds a shape
  and a list of hopping kinds give is kwant's enumeration; it is a parameter, and
  spelled out below for the infinite sheet.
\<close>

type_synonym cmatrix = "complex list list"

type_synonym value_fn = "namespace \<Rightarrow> error + complex"

type_synonym bond = "nat \<times> nat \<times> int list \<times> value_fn"

text \<open>The floats of a list of momenta; a sequence where a number is needed is an error.\<close>

fun floats :: "pyval list \<Rightarrow> error + real list" where
  "floats [] = Inr []"
| "floats (Num x # vs) = (case floats vs of Inl e \<Rightarrow> Inl e | Inr xs \<Rightarrow> Inr (x # xs))"
| "floats (Seq ys # vs) = Inl TypeError"

definition dot :: "real list \<Rightarrow> real list \<Rightarrow> real" where
  "dot u v = sum_list (map2 (*) u v)"

text \<open>The onsite values of the sites; the first error ends the evaluation.\<close>

fun onsite_values :: "(family \<Rightarrow> value_fn) \<Rightarrow> family list \<Rightarrow> namespace \<Rightarrow> error + complex list" where
  "onsite_values f [] p = Inr []"
| "onsite_values f (fam # fams) p =
     (case f fam p of
        Inl e \<Rightarrow> Inl e
      | Inr v \<Rightarrow> (case onsite_values f fams p of Inl e \<Rightarrow> Inl e | Inr vs \<Rightarrow> Inr (v # vs)))"

text \<open>The bonds with their values \<open>pv\<close> at the momenta \<open>ks\<close>.\<close>

fun bond_values :: "bond list \<Rightarrow> namespace \<Rightarrow> real list \<Rightarrow> error + (nat \<times> nat \<times> complex) list" where
  "bond_values [] p ks = Inr []"
| "bond_values ((i, j, elem, f) # rest) p ks =
     (if length elem \<noteq> length ks then Inl (ValueError ''dot: sequences of different length'')
      else
        (case f p of
           Inl e \<Rightarrow> Inl e
         | Inr v \<Rightarrow>
             (case bond_values rest p ks of
                Inl e \<Rightarrow> Inl e
              | Inr pvs \<Rightarrow> Inr ((i, j, cis (dot (map real_of_int elem) ks) * v) # pvs))))"

definition bond_entry :: "nat \<Rightarrow> nat \<Rightarrow> nat \<times> nat \<times> complex \<Rightarrow> complex" where
  "bond_entry r c ijv =
     (case ijv of (i, j, pv) \<Rightarrow>
        (if r = i \<and> c = j then pv else 0) + (if r = j \<and> c = i then cnj pv else 0))"

definition matrix_entry :: "complex list \<Rightarrow> (nat \<times> nat \<times> complex) list \<Rightarrow> nat \<Rightarrow> nat \<Rightarrow> complex" where
  "matrix_entry ovs pvs r c =
     (if r = c then ovs ! r else 0) + sum_list (map (bond_entry r c) pvs)"

definition finalized_hamiltonian ::
  "(family \<Rightarrow> value_fn) \<Rightarrow> family list \<Rightarrow> bond list \<Rightarrow> namespace \<Rightarrow> pyval list \<Rightarrow> error + cmatrix"
where
  "finalized_hamiltonian ons sites bonds p k =
     (case floats k of
        Inl e \<Rightarrow> Inl e
      | Inr ks \<Rightarrow>
          (case onsite_values ons sites p of
             Inl e \<Rightarrow> Inl e
           | Inr ovs \<Rightarrow>
               (case bond_values bonds p ks of
                  Inl e \<Rightarrow> Inl e
                | Inr pvs \<Rightarrow>
                    Inr (map (\<lambda>r. map (\<lambda>c. matrix_entry ovs pvs r c) [0..<length sites])
                             [0..<length sites]))))"

text \<open>
  What \<open>hamiltonian_array\<close> reads of a system: its symmetry, and the dense Hamiltonian
  \<open>hamiltonian_submatrix([pars] + momenta, sparse=False)\<close> of the finalized system.
\<close>

record kwant_system =
  system_symmetry :: symmetry
  hamiltonian_submatrix :: "namespace \<Rightarrow> pyval list \<Rightarrow> error + cmatrix"

text \<open>The finalized system of a builder whose sites and bonds kwant enumerates as given.\<close>

definition wraparound_finalized :: "builder \<Rightarrow> family list \<Rightarrow> bond list \<Rightarrow> kwant_system" where
  "wraparound_finalized b sites bonds =
     \<lparr> system_symmetry = symmetry b,
       hamiltonian_submatrix = finalized_hamiltonian (onsite_term b) sites bonds \<rparr>"

text \<open>
  The enumeration for the infinite sheet: the fundamental domain has one site of each
  sublattice, and a hopping kind \<open>HoppingKind(delta, family_a, family_b)\<close> is the bond to the
  site of \<open>family_a\<close> from the image under \<open>-delta\<close> of the site of \<open>family_b\<close>.
\<close>

fun site_index :: "family \<Rightarrow> nat" where
  "site_index Sublattice_a = 0"
| "site_index Sublattice_b = 1"

definition sheet_sites :: "family list" where
  "sheet_sites = [Sublattice_a, Sublattice_b]"

definition sheet_bonds :: "(hopping_kind list \<times> value_fn) list \<Rightarrow> bond list" where
  "sheet_bonds terms =
     concat (map (\<lambda>(kinds, f).
        map (\<lambda>hk. (site_index (family_a hk), site_index (family_b hk),
                    [- fst (delta hk), - snd (delta hk)], f)) kinds) terms)"

definition sheet_system :: "builder \<Rightarrow> kwant_system" where
  "sheet_system b = wraparound_finalized b sheet_sites (sheet_bonds (hopping_terms b))"

text \<open>The nearest-neighbour kinds kwant finds on the honeycomb lattice of the defaults.\<close>

definition honeycomb_neighbors :: "hopping_kind list" where
  "honeycomb_neighbors =
     [HoppingKind (0, 0) Sublattice_a Sublattice_b,
      HoppingKind (0, 1) Sublattice_a Sublattice_b,
      HoppingKind (-1, 1) Sublattice_a Sublattice_b]"

text \<open>
  \<open>infiniteSystem = haldaneModel(w = width, boundary = bound)\<close> with \<open>bound = 'infinite'\<close>,
  as both scripts build it.
\<close>

definition infiniteSystem :: "real \<Rightarrow> error + builder" where
  "infiniteSystem width =
     haldaneModel honeycomb_neighbors width ''infinite'' default_pVecs default_bAtoms"

text \<open>The conjugate transpose of a matrix given by its rows.\<close>

definition conjugate_transpose :: "cmatrix \<Rightarrow> cmatrix" where
  "conjugate_transpose M = map (map cnj) (transpose M)"

section \<open>numpy: the projection matrix and least squares\<close>

text \<open>
  \<open>B = np.array(syst.symmetry.periods).T\<close> and \<open>A = B @ np.linalg.inv(B.T @ B)\<close> for the two
  periods \<open>p1, p2\<close>, in exact arithmetic: \<open>B.T @ B\<close> is the Gram matrix of the periods,
  \<open>inv\<close> raises \<open>LinAlgError\<close> when it is singular, and the result is given by its rows.
\<close>

definition projection_matrix :: "real list \<Rightarrow> real list \<Rightarrow> error + (real \<times> real) list" where
  "projection_matrix p1 p2 =
     (let g11 = dot p1 p1; g12 = dot p1 p2; g21 = dot p2 p1; g22 = dot p2 p2;
          d = g11 * g22 - g12 * g21
      in if d = 0 then Inl LinAlgError
         else Inr (map2 (\<lambda>x y. (x * (g22 / d) + y * (- g21 / d),
                                 x * (- g12 / d) + y * (g11 / d))) p1 p2))"

text \<open>
  \<open>np.linalg.lstsq(A, b)[:2]\<close> for a matrix of two columns, in exact arithmetic: the
  minimiser of \<open>|A x - b|\<close> and the residuals. numpy returns the sum of the squared
  residuals when \<open>A\<close> has more rows than columns and full rank, and an empty array
  otherwise; for a matrix of lower rank the solution is the one of least norm.
\<close>

definition lstsq :: "(real \<times> real) list \<Rightarrow> real list \<Rightarrow> error + (real list \<times> real list)" where
  "lstsq A b =
     (if length A \<noteq> length b then Inl LinAlgError
      else
        (let s11 = sum_list (map (\<lambda>r. fst r * fst r) A);
             s12 = sum_list (map (\<lambda>r. fst r * snd r) A);
             s22 = sum_list (map (\<lambda>r. snd r * snd r) A);
             c1 = sum_list (map2 (\<lambda>r y. fst r * y) A b);
             c2 = sum_list (map2 (\<lambda>r y. snd r * y) A b);
             d = s11 * s22 - s12 * s12
         in if d \<noteq> 0 then
              (let x1 = (s22 * c1 - s12 * c2) / d;
                   x2 = (s11 * c2 - s12 * c1) / d;
                   res = sum_list (map2 (\<lambda>r y. (y - fst r * x1 - snd r * x2)\<^sup>2) A b)
               in Inr ([x1, x2], if length A > 2 then [res] else []))
            else if s11 + s22 = 0 then Inr ([0, 0], [])
            else Inr ([c1 / (s11 + s22), c2 / (s11 + s22)], [])))"

section \<open>The Hamiltonian evaluator: \<open>hamiltonian_array\<close>\<close>

fun num_directions :: "symmetry \<Rightarrow> nat" where
  "num_directions NoSymmetry = 0"
| "num_directions (TranslationalSymmetry1 p1) = 1"
| "num_directions (TranslationalSymmetry2 p1 p2) = 2"

text \<open>
  \<open>syst.symmetry.periods.shape[-1]\<close>, and 0 where \<open>periods\<close> has no shape (the
  \<open>AttributeError\<close> the source catches).
\<close>

fun space_dimensionality :: "symmetry \<Rightarrow> nat" where
  "space_dimensionality NoSymmetry = 0"
| "space_dimensionality (TranslationalSymmetry1 p1) = length p1"
| "space_dimensionality (TranslationalSymmetry2 p1 p2) = length p2"

text \<open>
  The three closures \<open>momentum_to_lattice\<close> the source defines, by the branch that defines
  them: for no symmetry, for one period (with \<open>dimensionality\<close>), and for two periods
  (with the matrix \<open>A\<close> and \<open>space_dimensionality\<close>).
\<close>

datatype lattice_map =
    Lattice0
  | Lattice1 nat
  | Lattice2 "(real \<times> real) list" nat

definition make_momentum_to_lattice :: "symmetry \<Rightarrow> error + lattice_map" where
  "make_momentum_to_lattice sy =
     (case sy of
        NoSymmetry \<Rightarrow> Inr Lattice0
      | TranslationalSymmetry1 p1 \<Rightarrow> Inr (Lattice1 (num_directions sy))
      | TranslationalSymmetry2 p1 p2 \<Rightarrow>
          (case projection_matrix p1 p2 of
             Inl e \<Rightarrow> Inl e
           | Inr A \<Rightarrow> Inr (Lattice2 A (space_dimensionality sy))))"

definition dispersion_1D :: string where
  "dispersion_1D = ''Dispersion is 1D, but more momenta are provided.''"

definition no_lattice_momentum :: string where
  "no_lattice_momentum = ''Requested momentum doesn't correspond to any lattice momentum.''"

fun momentum_to_lattice :: "lattice_map \<Rightarrow> pyval list \<Rightarrow> error + pyval list" where
  "momentum_to_lattice Lattice0 k = Inr []"
| "momentum_to_lattice (Lattice1 dimensionality) k =
     (if list_ex truthy (drop dimensionality k) then Inl (ValueError dispersion_1D)
      else (case k of [] \<Rightarrow> Inl IndexError | k0 # ks \<Rightarrow> Inr [k0]))"
| "momentum_to_lattice (Lattice2 A sd) k =
     (case floats (take sd k) of
        Inl e \<Rightarrow> Inl e
      | Inr b \<Rightarrow>
          (case lstsq A b of
             Inl e \<Rightarrow> Inl e
           | Inr (x, residuals) \<Rightarrow>
               if list_ex (\<lambda>r. \<bar>r\<bar> > 1 / 10 ^ 7) residuals
               then Inl (RuntimeError no_lattice_momentum)
               else Inr (map Num x)))"

text \<open>
  The objects of the Python heap that matter here are the parameter bundles: a heap is
  the list of the namespaces allocated so far, and a reference is an index into it.
  \<open>copy(p)\<close> allocates a new namespace with the same items; \<open>SimpleNamespace()\<close>
  allocates an empty one.
\<close>

type_synonym heap = "namespace list"

definition copy_namespace :: "nat \<Rightarrow> heap \<Rightarrow> nat \<times> heap" where
  "copy_namespace p h = (length h, h @ [h ! p])"

definition new_namespace :: "heap \<Rightarrow> nat \<times> heap" where
  "new_namespace h = (length h, h @ [[]])"

text \<open>
  An array of matrices: the shape, and the matrices over the leading axes in row-major
  order. \<open>mat_shape\<close> is \<open>list(M.shape)\<close> of a matrix given by its rows.
\<close>

record ndarray =
  array_shape :: "nat list"
  array_blocks :: "cmatrix list"

definition mat_shape :: "cmatrix \<Rightarrow> nat list" where
  "mat_shape M = [length M, (case M of [] \<Rightarrow> 0 | r # rs \<Rightarrow> length r)]"

text \<open>The first loop: the fields of \<open>pars\<close> that are sequences.\<close>

definition changing_of_pars :: "namespace \<Rightarrow> (string \<times> real list) list" where
  "changing_of_pars pars =
     fold (\<lambda>(key, value) changing.
             (case value of Seq xs \<Rightarrow> AList.update key xs changing | Num x \<Rightarrow> changing))
          pars []"

definition reserved_for_momentum :: "string \<Rightarrow> string" where
  "reserved_for_momentum key =
     ''One of the system parameters is '' @ key @
     '', which is reserved for momentum. Please rename it.''"

text \<open>The second loop, over \<open>[('k_x', k_x), ('k_y', k_y), ('k_z', k_z)]\<close>.\<close>

fun add_momenta ::
  "(string \<times> pyval) list \<Rightarrow> (string \<times> real list) list \<Rightarrow> error + (string \<times> real list) list"
where
  "add_momenta [] changing = Inr changing"
| "add_momenta ((key, value) # rest) changing =
     (if map_of changing key \<noteq> None then Inl (RuntimeError (reserved_for_momentum key))
      else add_momenta rest
             (case value of Seq xs \<Rightarrow> AList.update key xs changing | Num x \<Rightarrow> changing))"

text \<open>\<open>values.get(name, default)\<close> on the keyword arguments of one grid point.\<close>

definition values_get :: "(string \<times> real) list \<Rightarrow> string \<Rightarrow> pyval \<Rightarrow> pyval" where
  "values_get values name dflt =
     (case map_of values name of Some v \<Rightarrow> Num v | None \<Rightarrow> dflt)"

text \<open>
  The inner function \<open>hamiltonian(**values)\<close>: it updates the object \<open>pars\<close> in place and
  evaluates the system there. \<open>k_x, k_y, k_z\<close> are the arguments of the enclosing call.
\<close>

definition hamiltonian ::
  "kwant_system \<Rightarrow> lattice_map \<Rightarrow> pyval \<Rightarrow> pyval \<Rightarrow> pyval \<Rightarrow> nat \<Rightarrow> (string \<times> real) list \<Rightarrow> heap
    \<Rightarrow> (error + cmatrix) \<times> heap" where
  "hamiltonian syst mtl k_x k_y k_z pars values h =
     (let h' = h[pars := fold (\<lambda>(key, v). AList.update key (Num v)) values (h ! pars)];
          k = [values_get values ''k_x'' k_x, values_get values ''k_y'' k_y,
               values_get values ''k_z'' k_z]
      in case momentum_to_lattice mtl k of
           Inl e \<Rightarrow> (Inl e, h')
         | Inr kl \<Rightarrow> (hamiltonian_submatrix syst (h' ! pars) kl, h'))"

text \<open>
  The list comprehension over \<open>itertools.product(*values)\<close>: one call of \<open>hamiltonian\<close> per
  grid point, in order, each on the heap the one before left; the first error ends it.
\<close>

fun eval_grid ::
  "kwant_system \<Rightarrow> lattice_map \<Rightarrow> pyval \<Rightarrow> pyval \<Rightarrow> pyval \<Rightarrow> nat \<Rightarrow> string list \<Rightarrow> real list list
    \<Rightarrow> heap \<Rightarrow> (error + cmatrix list) \<times> heap" where
  "eval_grid syst mtl k_x k_y k_z pars names [] h = (Inr [], h)"
| "eval_grid syst mtl k_x k_y k_z pars names (value # rest) h =
     (case hamiltonian syst mtl k_x k_y k_z pars (zip names value) h of
        (Inl e, h') \<Rightarrow> (Inl e, h')
      | (Inr M, h') \<Rightarrow>
          (case eval_grid syst mtl k_x k_y k_z pars names rest h' of
             (Inl e, h'') \<Rightarrow> (Inl e, h'')
           | (Inr Ms, h'') \<Rightarrow> (Inr (M # Ms), h'')))"

type_synonym variables = "(string \<times> real list) list"

text \<open>
  \<open>hamiltonian_array(syst, p, k_x, k_y, k_z, return_grid)\<close> on a heap: \<open>p\<close> is \<open>None\<close> or a
  reference. The result is the array, with the grid when \<open>return_grid\<close> is set, and the
  heap after the call. \<open>np.array(hamiltonians)\<close> needs matrices of one shape.
\<close>

definition hamiltonian_array ::
  "kwant_system \<Rightarrow> nat option \<Rightarrow> pyval \<Rightarrow> pyval \<Rightarrow> pyval \<Rightarrow> bool \<Rightarrow> heap
    \<Rightarrow> (error + ndarray \<times> variables option) \<times> heap" where
  "hamiltonian_array syst p k_x k_y k_z return_grid h0 =
     (let (p1, h1) = (case p of None \<Rightarrow> new_namespace h0 | Some a \<Rightarrow> (a, h0));
          (pars, h) = copy_namespace p1 h1
      in case make_momentum_to_lattice (system_symmetry syst) of
           Inl e \<Rightarrow> (Inl e, h)
         | Inr mtl \<Rightarrow>
             (case add_momenta [(''k_x'', k_x), (''k_y'', k_y), (''k_z'', k_z)]
                     (changing_of_pars (h ! pars)) of
                Inl e \<Rightarrow> (Inl e, h)
              | Inr changing \<Rightarrow>
                  if changing = [] then
                    (case momentum_to_lattice mtl [k_x, k_y, k_z] of
                       Inl e \<Rightarrow> (Inl e, h)
                     | Inr kl \<Rightarrow>
                         (case hamiltonian_submatrix syst (h ! pars) kl of
                            Inl e \<Rightarrow> (Inl e, h)
                          | Inr M \<Rightarrow>
                              (Inr (\<lparr> array_shape = 1 # mat_shape M, array_blocks = [M] \<rparr>,
                                    if return_grid then Some [] else None), h)))
                  else
                    (let sorted_items = sort_key fst changing;
                         names = map fst sorted_items;
                         values = map snd sorted_items
                     in case eval_grid syst mtl k_x k_y k_z pars names (product_lists values) h of
                          (Inl e, h') \<Rightarrow> (Inl e, h')
                        | (Inr hamiltonians, h') \<Rightarrow>
                            (case hamiltonians of
                               [] \<Rightarrow> (Inl IndexError, h')
                             | M0 # Ms \<Rightarrow>
                                 if list_all (\<lambda>M. mat_shape M = mat_shape M0) hamiltonians
                                 then (Inr (\<lparr> array_shape = map length values @ mat_shape M0,
                                               array_blocks = hamiltonians \<rparr>,
                                            if return_grid then Some (zip names values) else None),
                                       h')
                                 else (Inl (ValueError ''inhomogeneous shape''), h')))))"

section \<open>The spectrum solver: \<open>spectrum\<close>\<close>

definition linspace :: "real \<Rightarrow> real \<Rightarrow> nat \<Rightarrow> real list" where
  "linspace start stop num =
     (if num = 1 then [start]
      else map (\<lambda>i. start + (stop - start) * real i / real (num - 1)) [0..<num])"

text \<open>
  The two comprehensions on \<open>k = [k_x, k_y, k_z]\<close>: a missing momentum becomes the
  default grid, and a momentum beyond the dimensionality becomes 0.
\<close>

definition spectrum_momenta :: "nat \<Rightarrow> nat \<Rightarrow> pyval option list \<Rightarrow> pyval list" where
  "spectrum_momenta dimensionality res k =
     (let k1 = map (\<lambda>i. case i of None \<Rightarrow> Seq (linspace (- pi) pi res) | Some v \<Rightarrow> v) k
      in map (\<lambda>(j, i). if j < dimensionality then i else Num 0) (enumerate 0 k1))"

datatype ('e, 'pl) spectrum_result = Energies 'e | Plot 'pl

text \<open>
  \<open>spectrum\<close>. The eigensolver \<open>np.linalg.eigvalsh\<close> and the two plotting branches (holoviews)
  are not code of this repository: they are the parameters \<open>eigvalsh\<close>, \<open>plot_1D\<close> and
  \<open>plot_2D\<close>, each of which may raise. The local variable \<open>energies\<close> is bound only when
  there are one or two variables; reading it unbound raises \<open>UnboundLocalError\<close>.
  \<open>spectrum_body\<close> is the body of \<open>spectrum\<close> from the line after the call of
  \<open>hamiltonian_array\<close> on.
\<close>

definition spectrum_body ::
  "(ndarray \<Rightarrow> error + 'e) \<Rightarrow> (variables \<Rightarrow> 'e \<Rightarrow> error + 'pl) \<Rightarrow> (variables \<Rightarrow> 'e \<Rightarrow> error + 'pl)
    \<Rightarrow> bool \<Rightarrow> ndarray \<Rightarrow> variables \<Rightarrow> error + ('e, 'pl) spectrum_result" where
  "spectrum_body eigvalsh plot_1D plot_2D return_energies hamiltonians variables =
     (case (if length variables = 1 \<or> length variables = 2
            then map_sum id Some (eigvalsh hamiltonians) else Inr None) of
        Inl e \<Rightarrow> Inl e
      | Inr energies \<Rightarrow>
          if length variables = 0 then Inl (ValueError ''A 0D plot requested'')
          else if return_energies then
            (case energies of
               None \<Rightarrow> Inl (UnboundLocalError ''energies'')
             | Some en \<Rightarrow> Inr (Energies en))
          else if length variables = 1 then
            (case energies of
               None \<Rightarrow> Inl (UnboundLocalError ''energies'')
             | Some en \<Rightarrow> map_sum id Plot (plot_1D variables en))
          else if length variables = 2 then
            (case energies of
               None \<Rightarrow> Inl (UnboundLocalError ''energies'')
             | Some en \<Rightarrow> map_sum id Plot (plot_2D variables en))
          else Inl (ValueError ''Cannot make 4D plots yet.''))"

definition spectrum ::
  "(ndarray \<Rightarrow> error + 'e) \<Rightarrow> (variables \<Rightarrow> 'e \<Rightarrow> error + 'pl) \<Rightarrow> (variables \<Rightarrow> 'e \<Rightarrow> error + 'pl)
    \<Rightarrow> kwant_system \<Rightarrow> nat option \<Rightarrow> pyval option \<Rightarrow> pyval option \<Rightarrow> pyval option \<Rightarrow> nat \<Rightarrow> bool
    \<Rightarrow> heap \<Rightarrow> (error + ('e, 'pl) spectrum_result) \<times> heap" where
  "spectrum eigvalsh plot_1D plot_2D syst p k_x k_y k_z res return_energies h0 =
     (let (p1, h1) = (case p of None \<Rightarrow> new_namespace h0 | Some a \<Rightarrow> (a, h0));
          dimensionality = num_directions (system_symmetry syst);
          k = spectrum_momenta dimensionality res [k_x, k_y, k_z]
      in case hamiltonian_array syst (Some p1) (k ! 0) (k ! 1) (k ! 2) True h1 of
           (Inl e, h) \<Rightarrow> (Inl e, h)
         | (Inr (hamiltonians, grid), h) \<Rightarrow>
             (case grid of
                None \<Rightarrow> (Inl TypeError, h)
              | Some variables \<Rightarrow>
                  (spectrum_body eigvalsh plot_1D plot_2D return_energies hamiltonians variables,
                   h)))"

section \<open>The Berry curvature engine\<close>

text \<open>
  Modelled from the spec: the function \<open>berryCurvature\<close>, which \<open>berryCurve.py\<close> imports from
  \<open>functions\<close> and \<open>functions.py\<close> does not define. By the contract of the spec, for a grid
  of \<open>k_x\<close> values by \<open>k_y\<close> values it returns a real array with one value for each
  interior grid point \<open>(i, j)\<close>, those with all four neighbours on the grid, and each band
  \<open>n\<close>. The value itself, which the spec obtains from the eigenvectors on the plaquette
  around the point, is the parameter \<open>curvature\<close>; it stands for the system and the
  parameter bundle.
\<close>

definition berryCurvature ::
  "(nat \<Rightarrow> nat \<Rightarrow> nat \<Rightarrow> real) \<Rightarrow> nat \<Rightarrow> real list \<Rightarrow> real list \<Rightarrow> real list list list" where
  "berryCurvature curvature num_bands k_x k_y =
     map (\<lambda>i. map (\<lambda>j. map (\<lambda>n. curvature i j n) [0..<num_bands]) [1..<length k_y - 1])
         [1..<length k_x - 1]"

text \<open>
  The caller in \<open>berryCurve.py\<close>: \<open>paralelFunc\<close> passes the one grid \<open>k\<close> for both axes and
  slices the result with \<open>[1:-1, 1:-1]\<close> before it writes it.
\<close>

definition slice_1_minus_1 :: "'a list \<Rightarrow> 'a list" where
  "slice_1_minus_1 xs = take (length xs - 2) (drop 1 xs)"

definition paralelFunc_data ::
  "(nat \<Rightarrow> nat \<Rightarrow> nat \<Rightarrow> real) \<Rightarrow> nat \<Rightarrow> real list \<Rightarrow> real list list list" where
  "paralelFunc_data curvature num_bands k =
     map slice_1_minus_1 (slice_1_minus_1 (berryCurvature curvature num_bands k k))"

section \<open>Well-formed symmetries\<close>

text \<open>
  kwant builds a \<open>TranslationalSymmetry\<close> only from linearly independent periods; for two
  periods that is a Gram determinant other than 0, the case in which \<open>np.linalg.inv\<close>
  returns.
\<close>

definition independent_periods :: "symmetry \<Rightarrow> bool" where
  "independent_periods sy =
     (case sy of
        TranslationalSymmetry2 p1 p2 \<Rightarrow> dot p1 p1 * dot p2 p2 - dot p1 p2 * dot p2 p1 \<noteq> 0
      | _ \<Rightarrow> True)"

section \<open>Helper facts\<close>

lemma upt_2: "[0..<2] = [0, 1]"
  by (simp add: upt_rec)

text \<open>The keys of \<open>changing\<close> after the first loop are the fields that hold a sequence.\<close>

lemma fold_changing_keys:
  "fst ` set (fold (\<lambda>(key, value) changing.
        (case value of Seq xs \<Rightarrow> AList.update key xs changing | Num x \<Rightarrow> changing)) ns acc)
   = fst ` set acc \<union> {key. \<exists>xs. (key, Seq xs) \<in> set ns}"
proof (induction ns arbitrary: acc)
  case Nil
  then show ?case by simp
next
  case (Cons kv ns)
  obtain key v where kv: "kv = (key, v)" by (cases kv)
  show ?case
  proof (cases v)
    case (Num x)
    with kv Cons show ?thesis by auto
  next
    case (Seq xs)
    with kv Cons show ?thesis by (auto simp: dom_update)
  qed
qed

lemma changing_of_pars_keys:
  "fst ` set (changing_of_pars ns) = {key. \<exists>xs. (key, Seq xs) \<in> set ns}"
  by (simp add: changing_of_pars_def fold_changing_keys)

lemma fold_changing_scalars:
  "list_all (\<lambda>kv. \<not> is_Iterable (snd kv)) ns \<Longrightarrow>
   fold (\<lambda>(key, value) changing.
        (case value of Seq xs \<Rightarrow> AList.update key xs changing | Num x \<Rightarrow> changing)) ns acc = acc"
proof (induction ns arbitrary: acc)
  case Nil
  then show ?case by simp
next
  case (Cons kv ns)
  obtain key v where kv: "kv = (key, v)" by (cases kv)
  from Cons.prems kv obtain x where "v = Num x" by (cases v) auto
  with Cons kv show ?case by simp
qed

lemma changing_of_pars_scalars:
  "list_all (\<lambda>kv. \<not> is_Iterable (snd kv)) ns \<Longrightarrow> changing_of_pars ns = []"
  by (simp add: changing_of_pars_def fold_changing_scalars)

text \<open>The second loop raises as soon as one of the three names is a key of \<open>changing\<close>.\<close>

lemma add_momenta_conflict:
  assumes "key \<in> fst ` set changing" and "key \<in> fst ` set kvs"
  shows "\<exists>key' \<in> fst ` set kvs. add_momenta kvs changing = Inl (RuntimeError (reserved_for_momentum key'))"
  using assms
proof (induction kvs arbitrary: changing)
  case Nil
  then show ?case by simp
next
  case (Cons kv kvs)
  obtain k v where kv: "kv = (k, v)" by (cases kv)
  show ?case
  proof (cases "map_of changing k \<noteq> None")
    case True
    with kv show ?thesis by auto
  next
    case False
    then have knot: "k \<notin> fst ` set changing" by (simp add: map_of_eq_None_iff)
    with Cons.prems kv have in_rest: "key \<in> fst ` set kvs" by auto
    let ?ch = "(case v of Seq xs \<Rightarrow> AList.update k xs changing | Num x \<Rightarrow> changing)"
    have "key \<in> fst ` set ?ch"
      using Cons.prems(1) by (cases v) (auto simp: dom_update)
    from Cons.IH[OF this in_rest] obtain key' where
      "key' \<in> fst ` set kvs" "add_momenta kvs ?ch = Inl (RuntimeError (reserved_for_momentum key'))"
      by blast
    with False kv show ?thesis by auto
  qed
qed

section \<open>The model builder\<close>

lemma haldaneModel_hopping_terms:
  assumes "haldaneModel neighbors w boundary pVecs bAtoms = Inr b"
  shows "hopping_terms b =
    [(neighbors, nnHopping), (nnnHoppings_a, nnnHopping), (nnnHoppings_b, nnnHopping)]"
  using assms by (auto simp: haldaneModel_def split: if_splits)

lemma nnnHopping_value:
  assumes "getattr p ''t_2'' = Inr t2"
  shows "nnnHopping p = Inr (\<i> * complex_of_real t2)"
  using assms by (simp add: nnnHopping_def)

lemma infiniteSystem_builder:
  "infiniteSystem w =
     Inr \<lparr> symmetry = TranslationalSymmetry2 [1, 0] [1 / 2, sqrt 3 / 2],
           site_shape = (\<lambda>pos. True), onsite_term = onsite,
           hopping_terms = [(honeycomb_neighbors, nnHopping), (nnnHoppings_a, nnnHopping),
                            (nnnHoppings_b, nnnHopping)] \<rparr>"
  by (simp add: infiniteSystem_def haldaneModel_def default_pVecs_def default_bAtoms_def)

lemma nnHopping_neq_nnnHopping: "nnHopping \<noteq> nnnHopping"
proof
  assume "nnHopping = nnnHopping"
  then have "nnHopping [(''t'', Num 1), (''t_2'', Num 1)] = nnnHopping [(''t'', Num 1), (''t_2'', Num 1)]"
    by simp
  then show False
    by (simp add: nnHopping_def nnnHopping_def getattr_def complex_eq_iff)
qed

text \<open>
  C8. For every parameter bundle, the model \<open>haldaneModel\<close> builds gives the value
  \<open>1j * p.t_2\<close>, which is purely imaginary, to exactly the six hopping kinds of
  \<open>nnnHoppings_a\<close> and \<open>nnnHoppings_b\<close>: the offsets (-1,0), (0,1), (1,-1) inside
  sublattice a and (1,0), (0,-1), (-1,1) inside sublattice b, each between two sites of
  one sublattice. The only other assignment, to the nearest neighbours, has the value
  function \<open>nnHopping\<close>, which is a different function.
\<close>

theorem haldaneModel_next_nearest_hoppings:
  assumes "haldaneModel neighbors w boundary pVecs bAtoms = Inr b"
  shows "[kf \<leftarrow> hopping_terms b. snd kf = nnnHopping] =
           [(nnnHoppings_a, nnnHopping), (nnnHoppings_b, nnnHopping)]
       \<and> nnnHoppings_a @ nnnHoppings_b =
           [HoppingKind (-1, 0) Sublattice_a Sublattice_a,
            HoppingKind (0, 1) Sublattice_a Sublattice_a,
            HoppingKind (1, -1) Sublattice_a Sublattice_a,
            HoppingKind (1, 0) Sublattice_b Sublattice_b,
            HoppingKind (0, -1) Sublattice_b Sublattice_b,
            HoppingKind (-1, 1) Sublattice_b Sublattice_b]
       \<and> list_all (\<lambda>hk. family_a hk = family_b hk) (nnnHoppings_a @ nnnHoppings_b)
       \<and> (\<forall>p t2. getattr p ''t_2'' = Inr t2 \<longrightarrow>
             nnnHopping p = Inr (\<i> * complex_of_real t2) \<and> Re (\<i> * complex_of_real t2) = 0)"
proof -
  have "hopping_terms b =
      [(neighbors, nnHopping), (nnnHoppings_a, nnnHopping), (nnnHoppings_b, nnnHopping)]"
    using assms by (rule haldaneModel_hopping_terms)
  then have "[kf \<leftarrow> hopping_terms b. snd kf = nnnHopping] =
           [(nnnHoppings_a, nnnHopping), (nnnHoppings_b, nnnHopping)]"
    using nnHopping_neq_nnnHopping by simp
  moreover have "\<forall>p t2. getattr p ''t_2'' = Inr t2 \<longrightarrow>
             nnnHopping p = Inr (\<i> * complex_of_real t2) \<and> Re (\<i> * complex_of_real t2) = 0"
    by (simp add: nnnHopping_value)
  ultimately show ?thesis
    by (simp add: nnnHoppings_a_def nnnHoppings_b_def)
qed

text \<open>The infinite sheet of the scripts, and a bundle with \<open>t_2 = 1/2\<close>.\<close>

theorem haldaneModel_next_nearest_hoppings_witness:
  "\<exists>b. infiniteSystem 20 = Inr b
     \<and> [kf \<leftarrow> hopping_terms b. snd kf = nnnHopping] =
          [(nnnHoppings_a, nnnHopping), (nnnHoppings_b, nnnHopping)]
     \<and> nnnHopping [(''t'', Num 1), (''t_2'', Num (1 / 2)), (''m'', Num 0)] = Inr (\<i> * complex_of_real (1 / 2))"
proof -
  obtain b where b: "infiniteSystem 20 = Inr b"
    using infiniteSystem_builder by blast
  then have hm: "haldaneModel honeycomb_neighbors 20 ''infinite'' default_pVecs default_bAtoms = Inr b"
    by (simp add: infiniteSystem_def)
  have g: "getattr [(''t'', Num 1), (''t_2'', Num (1 / 2)), (''m'', Num 0)] ''t_2'' = Inr (1 / 2)"
    by (simp add: getattr_def)
  from haldaneModel_next_nearest_hoppings[OF hm] g b show ?thesis
    by blast
qed

section \<open>Reserved momentum names\<close>

lemma independent_periods_lattice_map:
  assumes "independent_periods sy"
  shows "\<exists>mtl. make_momentum_to_lattice sy = Inr mtl"
  using assms
  by (cases sy) (simp_all add: independent_periods_def make_momentum_to_lattice_def
      projection_matrix_def Let_def)

text \<open>The evaluations of the infinite sheet at concrete inputs unfold these definitions.\<close>

lemmas sheet_evaluation =
  hamiltonian_array_def sheet_system_def wraparound_finalized_def
  copy_namespace_def new_namespace_def make_momentum_to_lattice_def projection_matrix_def dot_def
  changing_of_pars_def lstsq_def Let_def finalized_hamiltonian_def sheet_sites_def sheet_bonds_def
  honeycomb_neighbors_def nnnHoppings_a_def nnnHoppings_b_def onsite_def nnHopping_def
  nnnHopping_def getattr_def matrix_entry_def bond_entry_def mat_shape_def upt_2 hamiltonian_def
  values_get_def

text \<open>
  The guard of the second loop fires for a sequence: for every parameter bundle in
  which a field named \<open>k_x\<close>, \<open>k_y\<close> or \<open>k_z\<close> holds a sequence, \<open>hamiltonian_array\<close> fails
  with the name-conflict \<open>RuntimeError\<close>, whatever the momenta are, before any Hamiltonian
  is evaluated.
\<close>

lemma hamiltonian_array_name_conflict:
  assumes "independent_periods (system_symmetry syst)"
    and "map_of (h ! a) key = Some (Seq xs)"
    and "key \<in> {''k_x'', ''k_y'', ''k_z''}"
  shows "\<exists>key' \<in> {''k_x'', ''k_y'', ''k_z''}.
           fst (hamiltonian_array syst (Some a) k_x k_y k_z return_grid h)
             = Inl (RuntimeError (reserved_for_momentum key'))"
proof -
  obtain mtl where mtl: "make_momentum_to_lattice (system_symmetry syst) = Inr mtl"
    using independent_periods_lattice_map[OF assms(1)] by blast
  have "(key, Seq xs) \<in> set (h ! a)"
    using assms(2) by (rule map_of_SomeD)
  then have in_changing: "key \<in> fst ` set (changing_of_pars (h ! a))"
    by (auto simp: changing_of_pars_keys)
  have in_names: "key \<in> fst ` set [(''k_x'', k_x), (''k_y'', k_y), (''k_z'', k_z)]"
    using assms(3) by auto
  from add_momenta_conflict[OF in_changing in_names]
  obtain key' where key': "key' \<in> fst ` set [(''k_x'', k_x), (''k_y'', k_y), (''k_z'', k_z)]"
    and raise: "add_momenta [(''k_x'', k_x), (''k_y'', k_y), (''k_z'', k_z)]
                  (changing_of_pars (h ! a)) = Inl (RuntimeError (reserved_for_momentum key'))"
    by blast
  have "fst (hamiltonian_array syst (Some a) k_x k_y k_z return_grid h)
          = Inl (RuntimeError (reserved_for_momentum key'))"
    using mtl raise by (simp add: hamiltonian_array_def copy_namespace_def del: add_momenta.simps)
  moreover have "key' \<in> {''k_x'', ''k_y'', ''k_z''}"
    using key' by auto
  ultimately show ?thesis by blast
qed

text \<open>On the infinite sheet, a bundle with the field \<open>k_y = [0.5]\<close>.\<close>

lemma hamiltonian_array_name_conflict_on_sheet:
  "\<exists>b. infiniteSystem 20 = Inr b \<and>
     (\<exists>key' \<in> {''k_x'', ''k_y'', ''k_z''}.
        fst (hamiltonian_array (sheet_system b) (Some 0) (Num 0) (Num 0) (Num 0) False
               [[(''t'', Num 1), (''t_2'', Num 0), (''m'', Num 0), (''k_y'', Seq [1 / 2])]])
          = Inl (RuntimeError (reserved_for_momentum key')))"
proof -
  obtain b where b: "infiniteSystem 20 = Inr b"
    and sy: "symmetry b = TranslationalSymmetry2 [1, 0] [1 / 2, sqrt 3 / 2]"
    using infiniteSystem_builder[of 20] by simp
  have ind: "independent_periods (system_symmetry (sheet_system b))"
    using sy by (simp add: independent_periods_def sheet_system_def wraparound_finalized_def dot_def)
  have field: "map_of ([[(''t'', Num 1), (''t_2'', Num 0), (''m'', Num 0), (''k_y'', Seq [1 / 2])]] ! 0)
      ''k_y'' = Some (Seq [1 / 2])"
    by simp
  have "''k_y'' \<in> {''k_x'', ''k_y'', ''k_z''}" by simp
  from hamiltonian_array_name_conflict[OF ind field this] b show ?thesis
    by blast
qed

text \<open>
  The guard misses a scalar: a field is a key of \<open>changing\<close> only when it holds a
  sequence, so the three tests \<open>key in changing\<close> pass when the fields named \<open>k_x\<close>, \<open>k_y\<close>
  and \<open>k_z\<close> are scalars.
\<close>

lemma add_momenta_no_conflict:
  assumes "''k_x'' \<notin> fst ` set changing0" and "''k_y'' \<notin> fst ` set changing0"
    and "''k_z'' \<notin> fst ` set changing0"
  shows "\<exists>changing. add_momenta [(''k_x'', k_x), (''k_y'', k_y), (''k_z'', k_z)] changing0
           = Inr changing"
  using assms
  by (cases k_x; cases k_y; cases k_z) (simp_all add: map_of_eq_None_iff dom_update)

lemma scalar_reserved_fields_not_changing:
  assumes "list_all (\<lambda>kv. fst kv \<in> {''k_x'', ''k_y'', ''k_z''} \<longrightarrow> \<not> is_Iterable (snd kv)) ns"
    and "key \<in> {''k_x'', ''k_y'', ''k_z''}"
  shows "key \<notin> fst ` set (changing_of_pars ns)"
proof
  assume "key \<in> fst ` set (changing_of_pars ns)"
  then obtain xs where "(key, Seq xs) \<in> set ns"
    by (auto simp: changing_of_pars_keys)
  with assms show False
    by (auto simp: list_all_iff)
qed

text \<open>
  C3. The claim is that every parameter bundle with a field named \<open>k_x\<close>, \<open>k_y\<close> or
  \<open>k_z\<close> makes \<open>hamiltonian_array\<close> fail with the name-conflict error, whether the field
  holds a scalar or a sequence, and the message of the raise says the same of every
  system parameter of such a name. The code does so for a sequence only. For every
  bundle whose fields of these names are scalars the second loop passes, whatever the
  momenta are; and when no field is a sequence and the momenta are scalars, the call
  goes on to the Hamiltonian with the bundle as it is, the field included.
\<close>

theorem hamiltonian_array_scalar_reserved_field_passes:
  assumes "list_all (\<lambda>kv. fst kv \<in> {''k_x'', ''k_y'', ''k_z''} \<longrightarrow> \<not> is_Iterable (snd kv)) (h ! a)"
  shows "(\<exists>changing. add_momenta [(''k_x'', k_x), (''k_y'', k_y), (''k_z'', k_z)]
                        (changing_of_pars (h ! a)) = Inr changing)
    \<and> (list_all (\<lambda>kv. \<not> is_Iterable (snd kv)) (h ! a)
        \<and> make_momentum_to_lattice (system_symmetry syst) = Inr mtl
        \<and> momentum_to_lattice mtl [Num kx, Num ky, Num kz] = Inr kl \<longrightarrow>
        fst (hamiltonian_array syst (Some a) (Num kx) (Num ky) (Num kz) return_grid h) =
          map_sum id (\<lambda>M. (\<lparr> array_shape = 1 # mat_shape M, array_blocks = [M] \<rparr>,
                            if return_grid then Some [] else None))
            (hamiltonian_submatrix syst (h ! a) kl))"
proof (intro conjI impI)
  show "\<exists>changing. add_momenta [(''k_x'', k_x), (''k_y'', k_y), (''k_z'', k_z)]
                        (changing_of_pars (h ! a)) = Inr changing"
    by (rule add_momenta_no_conflict)
       (simp_all add: scalar_reserved_fields_not_changing[OF assms])
next
  assume pre: "list_all (\<lambda>kv. \<not> is_Iterable (snd kv)) (h ! a)
        \<and> make_momentum_to_lattice (system_symmetry syst) = Inr mtl
        \<and> momentum_to_lattice mtl [Num kx, Num ky, Num kz] = Inr kl"
  then have ch: "changing_of_pars (h ! a) = []"
    by (simp add: changing_of_pars_scalars)
  from pre have mtl: "make_momentum_to_lattice (system_symmetry syst) = Inr mtl"
    and kl: "momentum_to_lattice mtl [Num kx, Num ky, Num kz] = Inr kl"
    by simp_all
  show "fst (hamiltonian_array syst (Some a) (Num kx) (Num ky) (Num kz) return_grid h) =
          map_sum id (\<lambda>M. (\<lparr> array_shape = 1 # mat_shape M, array_blocks = [M] \<rparr>,
                            if return_grid then Some [] else None))
            (hamiltonian_submatrix syst (h ! a) kl)"
    using mtl kl ch
    by (cases "hamiltonian_submatrix syst (h ! a) kl")
       (simp_all add: hamiltonian_array_def copy_namespace_def del: momentum_to_lattice.simps)
qed

text \<open>
  The failing input: on the infinite sheet, the bundle with the scalar field \<open>k_x = 5\<close>
  and the momentum \<open>k_x = 0\<close>. The name check passes, nothing is raised, and the call
  returns the Hamiltonian at zero momentum.
\<close>

theorem hamiltonian_array_scalar_reserved_field:
  "\<exists>b. infiniteSystem 20 = Inr b \<and>
     (\<exists>changing. add_momenta [(''k_x'', Num 0), (''k_y'', Num 0), (''k_z'', Num 0)]
        (changing_of_pars
           ([[(''t'', Num 1), (''t_2'', Num 0), (''m'', Num 0), (''k_x'', Num 5)]] ! 0))
        = Inr changing) \<and>
     fst (hamiltonian_array (sheet_system b) (Some 0) (Num 0) (Num 0) (Num 0) False
            [[(''t'', Num 1), (''t_2'', Num 0), (''m'', Num 0), (''k_x'', Num 5)]])
       = Inr (\<lparr> array_shape = [1, 2, 2], array_blocks = [[[0, 3], [3, 0]]] \<rparr>, None)"
proof -
  let ?h = "[[(''t'', Num 1), (''t_2'', Num 0), (''m'', Num 0), (''k_x'', Num 5)]]"
  have scalars: "list_all (\<lambda>kv. fst kv \<in> {''k_x'', ''k_y'', ''k_z''} \<longrightarrow> \<not> is_Iterable (snd kv))
      (?h ! 0)"
    by simp
  have passes: "\<exists>changing. add_momenta [(''k_x'', Num 0), (''k_y'', Num 0), (''k_z'', Num 0)]
        (changing_of_pars (?h ! 0)) = Inr changing"
    using hamiltonian_array_scalar_reserved_field_passes[OF scalars] by (rule conjunct1)
  have "\<exists>b. infiniteSystem 20 = Inr b \<and>
     fst (hamiltonian_array (sheet_system b) (Some 0) (Num 0) (Num 0) (Num 0) False ?h)
       = Inr (\<lparr> array_shape = [1, 2, 2], array_blocks = [[[0, 3], [3, 0]]] \<rparr>, None)"
    by (simp add: infiniteSystem_builder sheet_evaluation)
  with passes show ?thesis by blast
qed

text \<open>
  With the same scalar field and \<open>k_x\<close> swept over \<open>[0, 1]\<close>, nothing is raised either, and
  \<open>pars.__dict__.update(values)\<close> writes the momentum over the field in the copy: after
  the call the copy, at reference 1, holds \<open>k_x = 1\<close>, the value of the last grid point.
\<close>

lemma hamiltonian_array_scalar_field_overwritten:
  "\<exists>b. infiniteSystem 20 = Inr b \<and>
     map_sum id (\<lambda>r. array_shape (fst r))
       (fst (hamiltonian_array (sheet_system b) (Some 0) (Seq [0, 1]) (Num 0) (Num 0) False
              [[(''t'', Num 1), (''t_2'', Num 0), (''m'', Num 0), (''k_x'', Num 5)]]))
       = Inr [2, 2, 2] \<and>
     snd (hamiltonian_array (sheet_system b) (Some 0) (Seq [0, 1]) (Num 0) (Num 0) False
            [[(''t'', Num 1), (''t_2'', Num 0), (''m'', Num 0), (''k_x'', Num 5)]]) ! 1
       = [(''t'', Num 1), (''t_2'', Num 0), (''m'', Num 0), (''k_x'', Num 1)]"
  by (simp add: infiniteSystem_builder sheet_evaluation)

section \<open>Ribbons: one retained translation\<close>

lemma product_lists_nonempty:
  "list_all (\<lambda>xs. xs \<noteq> []) xss \<Longrightarrow> product_lists xss \<noteq> []"
  by (induction xss) (auto simp: neq_Nil_conv)

lemma values_get_absent:
  "name \<notin> set names \<Longrightarrow> values_get (zip names value) name dflt = dflt"
proof -
  assume "name \<notin> set names"
  then have "name \<notin> fst ` set (zip names value)"
    by (auto dest: set_zip_leftD)
  then have "map_of (zip names value) name = None"
    by (simp add: map_of_eq_None_iff)
  then show ?thesis by (simp add: values_get_def)
qed

text \<open>A scalar momentum is no key of \<open>changing\<close> once the second loop has passed.\<close>

lemma add_momenta_scalar_keys:
  assumes "add_momenta [(''k_x'', k_x), (''k_y'', Num ky), (''k_z'', Num kz)] changing0 = Inr changing"
  shows "''k_y'' \<notin> fst ` set changing \<and> ''k_z'' \<notin> fst ` set changing"
  using assms by (cases k_x) (auto simp: map_of_eq_None_iff split: if_splits)

lemma momentum_to_lattice_ribbon:
  "momentum_to_lattice (Lattice1 1) [k_x, k_y, k_z] =
     (if truthy k_y \<or> truthy k_z then Inl (ValueError dispersion_1D) else Inr [k_x])"
  by simp

text \<open>
  C7. For every system with exactly one retained translation, the momentum map is the
  closure of the one-period branch: it returns \<open>[k_x]\<close> unchanged when \<open>k_y\<close> and \<open>k_z\<close> are
  zero, and raises the \<open>ValueError\<close> "Dispersion is 1D, but more momenta are provided."
  when one of them is not. A call of \<open>hamiltonian_array\<close> with no swept axis hands
  \<open>[k_x]\<close> to the system's Hamiltonian, and a call with a scalar \<open>k_y\<close> or \<open>k_z\<close> other than
  zero raises that error at its first grid point: that is every call that passes the
  name check and whose swept sequences are not empty.
\<close>

theorem hamiltonian_array_ribbon_momentum:
  assumes "system_symmetry syst = TranslationalSymmetry1 p1"
  shows "make_momentum_to_lattice (system_symmetry syst) = Inr (Lattice1 1)
    \<and> (\<forall>k_x k_y k_z. momentum_to_lattice (Lattice1 1) [k_x, k_y, k_z] =
          (if truthy k_y \<or> truthy k_z then Inl (ValueError dispersion_1D) else Inr [k_x]))
    \<and> (\<forall>a h kx return_grid.
          list_all (\<lambda>kv. \<not> is_Iterable (snd kv)) (h ! a) \<longrightarrow>
          fst (hamiltonian_array syst (Some a) (Num kx) (Num 0) (Num 0) return_grid h) =
            map_sum id (\<lambda>M. (\<lparr> array_shape = 1 # mat_shape M, array_blocks = [M] \<rparr>,
                              if return_grid then Some [] else None))
              (hamiltonian_submatrix syst (h ! a) [Num kx]))
    \<and> (\<forall>a h k_x ky kz return_grid changing.
          (ky \<noteq> 0 \<or> kz \<noteq> 0) \<and>
          add_momenta [(''k_x'', k_x), (''k_y'', Num ky), (''k_z'', Num kz)]
            (changing_of_pars (h ! a)) = Inr changing \<and>
          list_all (\<lambda>kv. snd kv \<noteq> []) changing \<longrightarrow>
          fst (hamiltonian_array syst (Some a) k_x (Num ky) (Num kz) return_grid h) =
            Inl (ValueError dispersion_1D))"
proof (intro conjI allI impI)
  show mtl: "make_momentum_to_lattice (system_symmetry syst) = Inr (Lattice1 1)"
    using assms by (simp add: make_momentum_to_lattice_def)
  show "momentum_to_lattice (Lattice1 1) [k_x, k_y, k_z] =
          (if truthy k_y \<or> truthy k_z then Inl (ValueError dispersion_1D) else Inr [k_x])"
    for k_x k_y k_z
    by (rule momentum_to_lattice_ribbon)
  show "fst (hamiltonian_array syst (Some a) (Num kx) (Num 0) (Num 0) return_grid h) =
          map_sum id (\<lambda>M. (\<lparr> array_shape = 1 # mat_shape M, array_blocks = [M] \<rparr>,
                            if return_grid then Some [] else None))
            (hamiltonian_submatrix syst (h ! a) [Num kx])"
    if "list_all (\<lambda>kv. \<not> is_Iterable (snd kv)) (h ! a)" for a h kx return_grid
    using mtl changing_of_pars_scalars[OF that]
    by (cases "hamiltonian_submatrix syst (h ! a) [Num kx]")
       (simp_all add: hamiltonian_array_def copy_namespace_def)
  show "fst (hamiltonian_array syst (Some a) k_x (Num ky) (Num kz) return_grid h) =
          Inl (ValueError dispersion_1D)"
    if prems: "(ky \<noteq> 0 \<or> kz \<noteq> 0) \<and>
          add_momenta [(''k_x'', k_x), (''k_y'', Num ky), (''k_z'', Num kz)]
            (changing_of_pars (h ! a)) = Inr changing \<and>
          list_all (\<lambda>kv. snd kv \<noteq> []) changing"
    for a h k_x ky kz return_grid changing
  proof -
    from prems have nz: "ky \<noteq> 0 \<or> kz \<noteq> 0"
      and am: "add_momenta [(''k_x'', k_x), (''k_y'', Num ky), (''k_z'', Num kz)]
            (changing_of_pars (h ! a)) = Inr changing"
      and ne: "list_all (\<lambda>kv. snd kv \<noteq> []) changing"
      by blast+
    show ?thesis
    proof (cases "changing = []")
      case True
      from am True have scalar: "\<exists>kx'. k_x = Num kx'"
        by (cases k_x) (auto split: if_splits)
      then obtain kx' where "k_x = Num kx'" by blast
      with mtl am True nz show ?thesis
        by (simp add: hamiltonian_array_def copy_namespace_def del: add_momenta.simps)
    next
      case False
      let ?items = "sort_key fst changing"
      let ?names = "map fst ?items"
      let ?vals = "map snd ?items"
      have keys: "''k_y'' \<notin> set ?names \<and> ''k_z'' \<notin> set ?names"
        using add_momenta_scalar_keys[OF am] by simp
      have "list_all (\<lambda>xs. xs \<noteq> []) ?vals"
        using ne by (simp add: list_all_iff)
      then obtain v rest where grid: "product_lists ?vals = v # rest"
        using product_lists_nonempty by (metis neq_Nil_conv)
      have first: "fst (hamiltonian syst (Lattice1 1) k_x (Num ky) (Num kz) (length h)
                     (zip ?names v) (h @ [h ! a])) = Inl (ValueError dispersion_1D)"
        using keys nz by (simp add: hamiltonian_def values_get_absent Let_def)
      have "fst (eval_grid syst (Lattice1 1) k_x (Num ky) (Num kz) (length h) ?names
                   (product_lists ?vals) (h @ [h ! a])) = Inl (ValueError dispersion_1D)"
        using first unfolding grid
        by (auto split: prod.splits sum.splits)
      with mtl am False show ?thesis
        by (auto simp add: hamiltonian_array_def copy_namespace_def Let_def
                 simp del: add_momenta.simps split: prod.splits sum.splits)
    qed
  qed
qed

text \<open>
  The zigzag ribbon of width 4, whatever sites and bonds kwant enumerates for it, with
  \<open>k_y = 1\<close>.
\<close>

theorem hamiltonian_array_ribbon_momentum_witness:
  "\<exists>b. haldaneModel honeycomb_neighbors 4 ''zigzag'' default_pVecs default_bAtoms = Inr b \<and>
     (\<forall>sites bonds.
        make_momentum_to_lattice (system_symmetry (wraparound_finalized b sites bonds))
          = Inr (Lattice1 1) \<and>
        fst (hamiltonian_array (wraparound_finalized b sites bonds) (Some 0)
               (Num 0) (Num 1) (Num 0) False
               [[(''t'', Num 1), (''t_2'', Num 0), (''m'', Num 0)]])
          = Inl (ValueError dispersion_1D))"
proof -
  obtain b where b: "haldaneModel honeycomb_neighbors 4 ''zigzag'' default_pVecs default_bAtoms = Inr b"
    and sy: "symmetry b = TranslationalSymmetry1 [1, 0]"
    by (simp add: haldaneModel_def default_pVecs_def default_bAtoms_def)
  have "make_momentum_to_lattice (system_symmetry (wraparound_finalized b sites bonds))
          = Inr (Lattice1 1) \<and>
        fst (hamiltonian_array (wraparound_finalized b sites bonds) (Some 0)
               (Num 0) (Num 1) (Num 0) False
               [[(''t'', Num 1), (''t_2'', Num 0), (''m'', Num 0)]])
          = Inl (ValueError dispersion_1D)" for sites bonds
  proof -
    have ribbon: "system_symmetry (wraparound_finalized b sites bonds) = TranslationalSymmetry1 [1, 0]"
      using sy by (simp add: wraparound_finalized_def)
    have am: "add_momenta [(''k_x'', Num 0), (''k_y'', Num 1), (''k_z'', Num 0)]
        (changing_of_pars ([[(''t'', Num 1), (''t_2'', Num 0), (''m'', Num 0)]] ! 0)) = Inr []"
      by (simp add: changing_of_pars_def)
    have pre: "((1::real) \<noteq> 0 \<or> (0::real) \<noteq> 0) \<and>
        add_momenta [(''k_x'', Num 0), (''k_y'', Num 1), (''k_z'', Num 0)]
          (changing_of_pars ([[(''t'', Num 1), (''t_2'', Num 0), (''m'', Num 0)]] ! 0)) = Inr [] \<and>
        list_all (\<lambda>kv. snd kv \<noteq> []) ([] :: (string \<times> real list) list)"
      using am by simp
    note facts = hamiltonian_array_ribbon_momentum[OF ribbon]
    from facts have "make_momentum_to_lattice (system_symmetry (wraparound_finalized b sites bonds))
          = Inr (Lattice1 1)"
      by (rule conjunct1)
    moreover from facts have "\<forall>a h k_x ky kz return_grid changing.
          (ky \<noteq> 0 \<or> kz \<noteq> 0) \<and>
          add_momenta [(''k_x'', k_x), (''k_y'', Num ky), (''k_z'', Num kz)]
            (changing_of_pars (h ! a)) = Inr changing \<and>
          list_all (\<lambda>kv. snd kv \<noteq> []) changing \<longrightarrow>
          fst (hamiltonian_array (wraparound_finalized b sites bonds) (Some a) k_x (Num ky) (Num kz)
                 return_grid h) = Inl (ValueError dispersion_1D)"
      by blast
    then have "fst (hamiltonian_array (wraparound_finalized b sites bonds) (Some 0)
               (Num 0) (Num 1) (Num 0) False
               [[(''t'', Num 1), (''t_2'', Num 0), (''m'', Num 0)]])
          = Inl (ValueError dispersion_1D)"
      using pre by blast
    ultimately show ?thesis by blast
  qed
  with b show ?thesis by blast
qed

section \<open>The spectrum entry point\<close>

lemma not_Iterable_Num: "\<not> is_Iterable v \<Longrightarrow> \<exists>x. v = Num x"
  by (cases v) simp_all

text \<open>With no swept axis and the grid asked for, the evaluator fails or returns no variables.\<close>

lemma hamiltonian_array_unswept:
  assumes "list_all (\<lambda>kv. \<not> is_Iterable (snd kv)) (h ! a)"
  shows "(\<exists>e. fst (hamiltonian_array syst (Some a) (Num x) (Num y) (Num z) True h) = Inl e)
       \<or> (\<exists>arr. fst (hamiltonian_array syst (Some a) (Num x) (Num y) (Num z) True h)
                  = Inr (arr, Some []))"
  using changing_of_pars_scalars[OF assms]
  by (auto simp add: hamiltonian_array_def copy_namespace_def split: sum.splits)

lemma spectrum_momenta_all:
  "list_all P (spectrum_momenta d res [k_x, k_y, k_z]) \<Longrightarrow>
     P (spectrum_momenta d res [k_x, k_y, k_z] ! 0) \<and>
     P (spectrum_momenta d res [k_x, k_y, k_z] ! 1) \<and>
     P (spectrum_momenta d res [k_x, k_y, k_z] ! 2)"
  by (simp add: spectrum_momenta_def)

text \<open>
  C10. For every call of \<open>spectrum\<close> with no swept axis, that is a bundle without a
  sequence-valued field and momenta that, after the defaults are filled in, are all
  scalars, the call raises an error, for either value of \<open>return_energies\<close>: the test
  for zero variables comes before \<open>return_energies\<close> is read.
\<close>

theorem spectrum_zero_axes_raises:
  assumes "list_all (\<lambda>kv. \<not> is_Iterable (snd kv)) (case p of None \<Rightarrow> [] | Some a \<Rightarrow> h ! a)"
    and "list_all (\<lambda>v. \<not> is_Iterable v)
           (spectrum_momenta (num_directions (system_symmetry syst)) res [k_x, k_y, k_z])"
  shows "\<exists>e. fst (spectrum eigvalsh plot_1D plot_2D syst p k_x k_y k_z res return_energies h) = Inl e"
proof -
  let ?k = "spectrum_momenta (num_directions (system_symmetry syst)) res [k_x, k_y, k_z]"
  obtain p1 h1 where ph: "(case p of None \<Rightarrow> new_namespace h | Some a \<Rightarrow> (a, h)) = (p1, h1)"
    by (cases "(case p of None \<Rightarrow> new_namespace h | Some a \<Rightarrow> (a, h))")
  have scalars: "list_all (\<lambda>kv. \<not> is_Iterable (snd kv)) (h1 ! p1)"
    using assms(1) ph by (cases p) (auto simp: new_namespace_def)
  have ni: "\<not> is_Iterable (?k ! 0) \<and> \<not> is_Iterable (?k ! 1) \<and> \<not> is_Iterable (?k ! 2)"
    using assms(2) by (rule spectrum_momenta_all)
  obtain x where kx: "?k ! 0 = Num x"
    using not_Iterable_Num[OF conjunct1[OF ni]] by (rule exE)
  obtain y where ky: "?k ! 1 = Num y"
    using not_Iterable_Num[OF conjunct1[OF conjunct2[OF ni]]] by (rule exE)
  obtain z where kz: "?k ! 2 = Num z"
    using not_Iterable_Num[OF conjunct2[OF conjunct2[OF ni]]] by (rule exE)
  note k = kx ky kz
  from hamiltonian_array_unswept[OF scalars, of syst x y z]
  show ?thesis
  proof
    assume "\<exists>e. fst (hamiltonian_array syst (Some p1) (Num x) (Num y) (Num z) True h1) = Inl e"
    then obtain e h' where "hamiltonian_array syst (Some p1) (Num x) (Num y) (Num z) True h1 = (Inl e, h')"
      by (metis fst_conv surj_pair)
    with ph k show ?thesis
      by (simp add: spectrum_def Let_def)
  next
    assume "\<exists>arr. fst (hamiltonian_array syst (Some p1) (Num x) (Num y) (Num z) True h1)
                  = Inr (arr, Some [])"
    then obtain arr h' where
      "hamiltonian_array syst (Some p1) (Num x) (Num y) (Num z) True h1 = (Inr (arr, Some []), h')"
      by (metis fst_conv surj_pair)
    with ph k show ?thesis
      by (simp add: spectrum_def spectrum_body_def Let_def)
  qed
qed

text \<open>
  The infinite sheet at zero momentum with a bundle of scalars, asking for the energies.
\<close>

theorem spectrum_zero_axes_raises_witness:
  "\<exists>b. infiniteSystem 20 = Inr b \<and>
     (\<exists>e. fst (spectrum (\<lambda>H. Inr (0::real)) (\<lambda>vs en. Inr ()) (\<lambda>vs en. Inr ()) (sheet_system b) (Some 0)
                 (Some (Num 0)) (Some (Num 0)) None 101 True
                 [[(''t'', Num 1), (''t_2'', Num 0), (''m'', Num 0), (''phi'', Num (pi / 2))]])
           = Inl e)"
proof -
  obtain b where b: "infiniteSystem 20 = Inr b"
    and sy: "symmetry b = TranslationalSymmetry2 [1, 0] [1 / 2, sqrt 3 / 2]"
    using infiniteSystem_builder[of 20] by simp
  have dims: "num_directions (system_symmetry (sheet_system b)) = 2"
    using sy by (simp add: sheet_system_def wraparound_finalized_def)
  have fields: "list_all (\<lambda>kv. \<not> is_Iterable (snd kv))
      (case Some (0::nat) of None \<Rightarrow> []
       | Some a \<Rightarrow> [[(''t'', Num 1), (''t_2'', Num 0), (''m'', Num 0), (''phi'', Num (pi / 2))]] ! a)"
    by simp
  have momenta: "list_all (\<lambda>v. \<not> is_Iterable v)
      (spectrum_momenta (num_directions (system_symmetry (sheet_system b))) 101
         [Some (Num 0), Some (Num 0), None])"
    unfolding dims by (simp add: spectrum_momenta_def)
  from spectrum_zero_axes_raises[OF fields momenta] b show ?thesis
    by blast
qed

text \<open>
  C5. With more than two swept axes \<open>spectrum\<close> never returns. When the grid evaluation
  itself succeeds and \<open>return_energies\<close> is not set, the error is the \<open>ValueError\<close> "Cannot
  make 4D plots yet."; when \<open>return_energies\<close> is set, the line \<open>return energies\<close> comes first
  and reads the variable \<open>energies\<close>, which is bound only for one or two axes, so the error
  is an \<open>UnboundLocalError\<close> instead.
\<close>

theorem spectrum_more_than_two_axes:
  assumes "k = spectrum_momenta (num_directions (system_symmetry syst)) res [k_x, k_y, k_z]"
    and "fst (hamiltonian_array syst (Some a) (k ! 0) (k ! 1) (k ! 2) True h)
           = Inr (hamiltonians, Some variables)"
    and "2 < length variables"
  shows "fst (spectrum eigvalsh plot_1D plot_2D syst (Some a) k_x k_y k_z res False h)
           = Inl (ValueError ''Cannot make 4D plots yet.'')
       \<and> fst (spectrum eigvalsh plot_1D plot_2D syst (Some a) k_x k_y k_z res True h)
           = Inl (UnboundLocalError ''energies'')"
proof -
  obtain h' where "hamiltonian_array syst (Some a) (k ! 0) (k ! 1) (k ! 2) True h
      = (Inr (hamiltonians, Some variables), h')"
    using assms(2) by (metis fst_conv surj_pair)
  then have "spectrum eigvalsh plot_1D plot_2D syst (Some a) k_x k_y k_z res re h
      = (spectrum_body eigvalsh plot_1D plot_2D re hamiltonians variables, h')" for re
    using assms(1) by (simp add: spectrum_def Let_def)
  moreover have "spectrum_body eigvalsh plot_1D plot_2D False hamiltonians variables
      = Inl (ValueError ''Cannot make 4D plots yet.'')"
    using assms(3) by (auto simp add: spectrum_body_def)
  moreover have "spectrum_body eigvalsh plot_1D plot_2D True hamiltonians variables
      = Inl (UnboundLocalError ''energies'')"
    using assms(3) by (auto simp add: spectrum_body_def)
  ultimately show ?thesis by simp
qed

text \<open>
  The infinite sheet with the three swept axes \<open>k_x = [0]\<close>, \<open>m = [0]\<close> and \<open>t = [1]\<close>, and
  \<open>return_energies\<close> set.
\<close>

theorem spectrum_three_axes_return_energies:
  "\<exists>b. infiniteSystem 20 = Inr b \<and>
     fst (spectrum (\<lambda>H. Inr (0::real)) (\<lambda>vs en. Inr ()) (\<lambda>vs en. Inr ()) (sheet_system b) (Some 0)
            (Some (Seq [0])) (Some (Num 0)) None 101 True
            [[(''t'', Seq [1]), (''t_2'', Num 0), (''m'', Seq [0]), (''phi'', Num (pi / 2))]])
       = Inl (UnboundLocalError ''energies'')"
proof -
  let ?b = "\<lparr> symmetry = TranslationalSymmetry2 [1, 0] [1 / 2, sqrt 3 / 2],
           site_shape = (\<lambda>pos. True), onsite_term = onsite,
           hopping_terms = [(honeycomb_neighbors, nnHopping), (nnnHoppings_a, nnnHopping),
                            (nnnHoppings_b, nnnHopping)] \<rparr>"
  let ?h = "[[(''t'', Seq [1]), (''t_2'', Num 0), (''m'', Seq [0]), (''phi'', Num (pi / 2))]]"
  have b: "infiniteSystem 20 = Inr ?b"
    by (rule infiniteSystem_builder)
  have k: "[Seq [0], Num 0, Num 0] =
      spectrum_momenta (num_directions (system_symmetry (sheet_system ?b))) 101
        [Some (Seq [0]), Some (Num 0), None]"
    by (simp add: spectrum_momenta_def sheet_system_def wraparound_finalized_def)
  have run: "fst (hamiltonian_array (sheet_system ?b) (Some 0)
      ([Seq [0], Num 0, Num 0] ! 0) ([Seq [0], Num 0, Num 0] ! 1) ([Seq [0], Num 0, Num 0] ! 2) True ?h)
      = Inr (\<lparr> array_shape = [1, 1, 1, 2, 2], array_blocks = [[[0, 3], [3, 0]]] \<rparr>,
             Some [(''k_x'', [0]), (''m'', [0]), (''t'', [1])])"
    by (simp add: sheet_evaluation)
  have "2 < length [(''k_x'', [0::real]), (''m'', [0]), (''t'', [1])]"
    by simp
  from spectrum_more_than_two_axes[OF k run this] b show ?thesis
    by blast
qed

section \<open>Two retained translations: the least-squares projection\<close>

text \<open>
  The solution of the least-squares system is the list of the components of the
  momentum along the two periods: with \<open>A = B (B\<^sup>T B)\<^sup>-\<^sup>1\<close> the normal equations give
  \<open>x = B\<^sup>T k\<close>.
\<close>

lemma dot_commute: "dot u v = dot v u"
proof -
  have "map2 (*) u v = map2 (*) v u"
    by (induction u v rule: list_induct2') (simp_all add: mult.commute)
  then show ?thesis by (simp add: dot_def)
qed

lemma sum_fst_fst:
  assumes "length u = length v"
  shows "sum_list (map (\<lambda>r. fst r * fst r) (map2 (\<lambda>x y. (x * a + y * b, x * c + y * e)) u v))
     = a * a * dot u u + 2 * a * b * dot u v + b * b * dot v v"
  using assms by (induction u v rule: list_induct2) (simp_all add: dot_def algebra_simps)

lemma sum_fst_snd:
  assumes "length u = length v"
  shows "sum_list (map (\<lambda>r. fst r * snd r) (map2 (\<lambda>x y. (x * a + y * b, x * c + y * e)) u v))
     = a * c * dot u u + (a * e + b * c) * dot u v + b * e * dot v v"
  using assms by (induction u v rule: list_induct2) (simp_all add: dot_def algebra_simps)

lemma sum_snd_snd:
  assumes "length u = length v"
  shows "sum_list (map (\<lambda>r. snd r * snd r) (map2 (\<lambda>x y. (x * a + y * b, x * c + y * e)) u v))
     = c * c * dot u u + 2 * c * e * dot u v + e * e * dot v v"
  using assms by (induction u v rule: list_induct2) (simp_all add: dot_def algebra_simps)

lemma sum_fst_rhs:
  assumes "length u = length v" and "length v = length w"
  shows "sum_list (map2 (\<lambda>r y. fst r * y) (map2 (\<lambda>x y. (x * a + y * b, x * c + y * e)) u v) w)
     = a * dot u w + b * dot v w"
  using assms by (induction u v w rule: list_induct3) (simp_all add: dot_def algebra_simps)

lemma sum_snd_rhs:
  assumes "length u = length v" and "length v = length w"
  shows "sum_list (map2 (\<lambda>r y. snd r * y) (map2 (\<lambda>x y. (x * a + y * b, x * c + y * e)) u v) w)
     = c * dot u w + e * dot v w"
  using assms by (induction u v w rule: list_induct3) (simp_all add: dot_def algebra_simps)

lemma lstsq_projection:
  assumes "length p1 = length p2" and "length p2 = length b"
    and "projection_matrix p1 p2 = Inr A"
  shows "\<exists>residuals. lstsq A b = Inr ([dot p1 b, dot p2 b], residuals)"
proof -
  define g11 where "g11 = dot p1 p1"
  define g12 where "g12 = dot p1 p2"
  define g22 where "g22 = dot p2 p2"
  define d where "d = g11 * g22 - g12 * g12"
  define u where "u = dot p1 b"
  define v where "v = dot p2 b"
  have g21: "dot p2 p1 = g12"
    by (simp add: g12_def dot_commute)
  have d_nz: "d \<noteq> 0"
    using assms(3)
    by (auto simp: projection_matrix_def Let_def g21 g11_def[symmetric] g12_def[symmetric]
        g22_def[symmetric] d_def split: if_splits)
  have A: "A = map2 (\<lambda>x y. (x * (g22 / d) + y * (- g12 / d), x * (- g12 / d) + y * (g11 / d))) p1 p2"
    using assms(3)
    by (auto simp: projection_matrix_def Let_def g21 g11_def[symmetric] g12_def[symmetric]
        g22_def[symmetric] d_def split: if_splits)
  have lenA: "length A = length b"
    using assms(1,2) by (simp add: A)
  have s11: "sum_list (map (\<lambda>r. fst r * fst r) A) = g22 / d"
  proof -
    have "sum_list (map (\<lambda>r. fst r * fst r) A)
        = (g22 / d) * (g22 / d) * g11 + 2 * (g22 / d) * (- g12 / d) * g12
          + (- g12 / d) * (- g12 / d) * g22"
      unfolding A g11_def g12_def g22_def by (rule sum_fst_fst[OF assms(1)])
    also have "\<dots> = g22 * (g11 * g22 - g12 * g12) / (d * d)"
      using d_nz by (simp add: field_simps)
    also have "\<dots> = g22 / d"
      using d_nz by (simp add: d_def[symmetric])
    finally show ?thesis .
  qed
  have s12: "sum_list (map (\<lambda>r. fst r * snd r) A) = - g12 / d"
  proof -
    have "sum_list (map (\<lambda>r. fst r * snd r) A)
        = (g22 / d) * (- g12 / d) * g11
          + ((g22 / d) * (g11 / d) + (- g12 / d) * (- g12 / d)) * g12
          + (- g12 / d) * (g11 / d) * g22"
      unfolding A g11_def g12_def g22_def by (rule sum_fst_snd[OF assms(1)])
    also have "\<dots> = - g12 * (g11 * g22 - g12 * g12) / (d * d)"
      using d_nz by (simp add: field_simps)
    also have "\<dots> = - g12 / d"
      using d_nz by (simp add: d_def[symmetric])
    finally show ?thesis .
  qed
  have s22: "sum_list (map (\<lambda>r. snd r * snd r) A) = g11 / d"
  proof -
    have "sum_list (map (\<lambda>r. snd r * snd r) A)
        = (- g12 / d) * (- g12 / d) * g11 + 2 * (- g12 / d) * (g11 / d) * g12
          + (g11 / d) * (g11 / d) * g22"
      unfolding A g11_def g12_def g22_def by (rule sum_snd_snd[OF assms(1)])
    also have "\<dots> = g11 * (g11 * g22 - g12 * g12) / (d * d)"
      using d_nz by (simp add: field_simps)
    also have "\<dots> = g11 / d"
      using d_nz by (simp add: d_def[symmetric])
    finally show ?thesis .
  qed
  have c1: "sum_list (map2 (\<lambda>r y. fst r * y) A b) = (g22 * u - g12 * v) / d"
  proof -
    have "sum_list (map2 (\<lambda>r y. fst r * y) A b) = (g22 / d) * u + (- g12 / d) * v"
      unfolding A u_def v_def by (rule sum_fst_rhs[OF assms(1,2)])
    then show ?thesis
      by (simp add: diff_divide_distrib)
  qed
  have c2: "sum_list (map2 (\<lambda>r y. snd r * y) A b) = (g11 * v - g12 * u) / d"
  proof -
    have "sum_list (map2 (\<lambda>r y. snd r * y) A b) = (- g12 / d) * u + (g11 / d) * v"
      unfolding A u_def v_def by (rule sum_snd_rhs[OF assms(1,2)])
    then show ?thesis
      by (simp add: diff_divide_distrib)
  qed
  have det: "(g22 / d) * (g11 / d) - (- g12 / d) * (- g12 / d) = 1 / d"
  proof -
    have "(g22 / d) * (g11 / d) - (- g12 / d) * (- g12 / d) = (g11 * g22 - g12 * g12) / (d * d)"
      using d_nz by (simp add: field_simps)
    also have "\<dots> = 1 / d"
      using d_nz by (simp add: d_def[symmetric])
    finally show ?thesis .
  qed
  have det_nz: "(g22 / d) * (g11 / d) - (- g12 / d) * (- g12 / d) \<noteq> 0"
    using det d_nz by simp
  have x1: "((g11 / d) * ((g22 * u - g12 * v) / d) - (- g12 / d) * ((g11 * v - g12 * u) / d))
              / ((g22 / d) * (g11 / d) - (- g12 / d) * (- g12 / d)) = u"
  proof -
    have "(g11 / d) * ((g22 * u - g12 * v) / d) - (- g12 / d) * ((g11 * v - g12 * u) / d)
        = u * (g11 * g22 - g12 * g12) / (d * d)"
      using d_nz by (simp add: field_simps)
    also have "\<dots> = u / d"
      using d_nz by (simp add: d_def[symmetric])
    finally show ?thesis
      unfolding det using d_nz by simp
  qed
  have x2: "((g22 / d) * ((g11 * v - g12 * u) / d) - (- g12 / d) * ((g22 * u - g12 * v) / d))
              / ((g22 / d) * (g11 / d) - (- g12 / d) * (- g12 / d)) = v"
  proof -
    have "(g22 / d) * ((g11 * v - g12 * u) / d) - (- g12 / d) * ((g22 * u - g12 * v) / d)
        = v * (g11 * g22 - g12 * g12) / (d * d)"
      using d_nz by (simp add: field_simps)
    also have "\<dots> = v / d"
      using d_nz by (simp add: d_def[symmetric])
    finally show ?thesis
      unfolding det using d_nz by simp
  qed
  show ?thesis
    unfolding lstsq_def Let_def s11 s12 s22 c1 c2
    using lenA det_nz x1 x2 by (simp add: u_def v_def)
qed

text \<open>
  In the plane, numpy reports no residual (the matrix \<open>A\<close> is square), so the projection
  never raises: every momentum has lattice coordinates.
\<close>

lemma lstsq_residuals_square:
  assumes "lstsq A b = Inr (x, residuals)" and "length A \<le> 2"
  shows "residuals = []"
  using assms by (auto simp: lstsq_def Let_def split: if_splits)

lemma projection_matrix_length:
  assumes "projection_matrix p1 p2 = Inr A"
  shows "length A = min (length p1) (length p2)"
  using assms by (auto simp: projection_matrix_def Let_def split: if_splits)

lemma momentum_to_lattice_plane:
  assumes "projection_matrix p1 p2 = Inr A" and "length p1 = 2" and "length p2 = 2"
  shows "momentum_to_lattice (Lattice2 A (length p2)) [Num kx, Num ky, k_z]
           = Inr [Num (dot p1 [kx, ky]), Num (dot p2 [kx, ky])]"
proof -
  have len: "length A \<le> 2"
    using projection_matrix_length[OF assms(1)] assms(3) by simp
  obtain residuals where ls: "lstsq A [kx, ky] = Inr ([dot p1 [kx, ky], dot p2 [kx, ky]], residuals)"
    using lstsq_projection[OF _ _ assms(1), of "[kx, ky]"] assms(2,3) by auto
  then have "residuals = []"
    using len by (rule lstsq_residuals_square)
  with ls assms(3) show ?thesis by simp
qed

text \<open>
  C4. For every system with two retained translations, the momentum map solves the
  least-squares system \<open>np.linalg.lstsq(A, k[:space_dimensionality])\<close> with
  \<open>A = B (B\<^sup>T B)\<^sup>-\<^sup>1\<close> built from the periods, raises the \<open>RuntimeError\<close> "Requested
  momentum doesn't correspond to any lattice momentum." exactly when a residual numpy
  reports exceeds \<open>1e-7\<close>, and hands the solution to the system's Hamiltonian otherwise.
  The solution is the projection on the periods: its components are the scalar products
  of the momentum with the two periods. The error is raised for some input: with the
  periods (1,0,0) and (0,1,0) in space and the momentum (0,0,1), the residual is 1. The
  residual numpy reports is the sum of the squared residuals, in exact arithmetic here.
\<close>

theorem hamiltonian_array_lattice_projection:
  assumes "system_symmetry syst = TranslationalSymmetry2 p1 p2"
    and "projection_matrix p1 p2 = Inr A"
    and "lstsq A (take (length p2) [kx, ky, kz]) = Inr (x, residuals)"
    and "list_all (\<lambda>kv. \<not> is_Iterable (snd kv)) (h ! a)"
  shows "make_momentum_to_lattice (system_symmetry syst) = Inr (Lattice2 A (length p2))
    \<and> momentum_to_lattice (Lattice2 A (length p2)) [Num kx, Num ky, Num kz] =
        (if list_ex (\<lambda>r. \<bar>r\<bar> > 1 / 10 ^ 7) residuals
         then Inl (RuntimeError no_lattice_momentum) else Inr (map Num x))
    \<and> fst (hamiltonian_array syst (Some a) (Num kx) (Num ky) (Num kz) return_grid h) =
        (if list_ex (\<lambda>r. \<bar>r\<bar> > 1 / 10 ^ 7) residuals
         then Inl (RuntimeError no_lattice_momentum)
         else map_sum id (\<lambda>M. (\<lparr> array_shape = 1 # mat_shape M, array_blocks = [M] \<rparr>,
                                if return_grid then Some [] else None))
                (hamiltonian_submatrix syst (h ! a) (map Num x)))
    \<and> (length p1 = length p2 \<and> length p2 \<le> 3 \<longrightarrow>
          x = [dot p1 (take (length p2) [kx, ky, kz]), dot p2 (take (length p2) [kx, ky, kz])])
    \<and> (\<exists>syst' a' h' kx' ky' kz'.
          num_directions (system_symmetry syst') = 2 \<and>
          fst (hamiltonian_array syst' (Some a') (Num kx') (Num ky') (Num kz') return_grid h')
            = Inl (RuntimeError no_lattice_momentum))"
proof (intro conjI)
  show mtl: "make_momentum_to_lattice (system_symmetry syst) = Inr (Lattice2 A (length p2))"
    using assms(1,2) by (simp add: make_momentum_to_lattice_def)
  have fl: "floats (take (length p2) [Num kx, Num ky, Num kz]) = Inr (take (length p2) [kx, ky, kz])"
    by (cases "length p2" rule: nat.exhaust; simp; cases "length p2 - 1" rule: nat.exhaust; simp;
        cases "length p2 - 2" rule: nat.exhaust; simp)
  show map: "momentum_to_lattice (Lattice2 A (length p2)) [Num kx, Num ky, Num kz] =
        (if list_ex (\<lambda>r. \<bar>r\<bar> > 1 / 10 ^ 7) residuals
         then Inl (RuntimeError no_lattice_momentum) else Inr (map Num x))"
    using assms(3) by (simp add: fl del: floats.simps take_Cons_numeral)
  show "fst (hamiltonian_array syst (Some a) (Num kx) (Num ky) (Num kz) return_grid h) =
        (if list_ex (\<lambda>r. \<bar>r\<bar> > 1 / 10 ^ 7) residuals
         then Inl (RuntimeError no_lattice_momentum)
         else map_sum id (\<lambda>M. (\<lparr> array_shape = 1 # mat_shape M, array_blocks = [M] \<rparr>,
                                if return_grid then Some [] else None))
                (hamiltonian_submatrix syst (h ! a) (map Num x)))"
    using mtl map changing_of_pars_scalars[OF assms(4)]
    by (cases "hamiltonian_submatrix syst (h ! a) (map Num x)")
       (simp_all add: hamiltonian_array_def copy_namespace_def del: momentum_to_lattice.simps)
  show "length p1 = length p2 \<and> length p2 \<le> 3 \<longrightarrow>
          x = [dot p1 (take (length p2) [kx, ky, kz]), dot p2 (take (length p2) [kx, ky, kz])]"
  proof
    assume len: "length p1 = length p2 \<and> length p2 \<le> 3"
    then have "length p2 = length (take (length p2) [kx, ky, kz])"
      by simp
    from lstsq_projection[OF conjunct1[OF len] this assms(2)] assms(3)
    show "x = [dot p1 (take (length p2) [kx, ky, kz]), dot p2 (take (length p2) [kx, ky, kz])]"
      by auto
  qed
  let ?syst = "\<lparr> system_symmetry = TranslationalSymmetry2 [1, 0, 0] [0, 1, 0],
                 hamiltonian_submatrix = (\<lambda>p k. Inr [[0]]) \<rparr>"
  have "fst (hamiltonian_array ?syst (Some 0) (Num 0) (Num 0) (Num 1) return_grid [[]])
          = Inl (RuntimeError no_lattice_momentum)"
    by (simp add: hamiltonian_array_def copy_namespace_def make_momentum_to_lattice_def
        projection_matrix_def dot_def changing_of_pars_def lstsq_def Let_def)
  moreover have "num_directions (system_symmetry ?syst) = 2"
    by simp
  ultimately show "\<exists>syst' a' h' kx' ky' kz'.
          num_directions (system_symmetry syst') = 2 \<and>
          fst (hamiltonian_array syst' (Some a') (Num kx') (Num ky') (Num kz') return_grid h')
            = Inl (RuntimeError no_lattice_momentum)"
    by blast
qed

text \<open>
  A slab: the periods (1,0,0) and (0,1,0) in space, whatever its Hamiltonian, and the
  momentum (0,0,1), which has the residual 1.
\<close>

theorem hamiltonian_array_lattice_projection_witness:
  "\<forall>H. fst (hamiltonian_array
              \<lparr> system_symmetry = TranslationalSymmetry2 [1, 0, 0] [0, 1, 0],
                hamiltonian_submatrix = H \<rparr>
              (Some 0) (Num 0) (Num 0) (Num 1) False [[(''t'', Num 1)]])
         = Inl (RuntimeError no_lattice_momentum)"
proof
  fix H
  let ?syst = "\<lparr> system_symmetry = TranslationalSymmetry2 [1, 0, 0] [0, 1, 0],
                 hamiltonian_submatrix = H \<rparr>"
  have sy: "system_symmetry ?syst = TranslationalSymmetry2 [1, 0, 0] [0, 1, 0]"
    by simp
  have A: "projection_matrix [1, 0, 0] [0, 1, 0] = Inr [(1, 0), (0, 1), (0, 0)]"
    by (simp add: projection_matrix_def dot_def Let_def)
  have ls: "lstsq [(1, 0), (0, 1), (0, 0)] (take (length [0, 1, 0 :: real]) [0, 0, 1]) = Inr ([0, 0], [1])"
    by (simp add: lstsq_def Let_def)
  have sc: "list_all (\<lambda>kv. \<not> is_Iterable (snd kv)) ([[(''t'', Num 1)]] ! 0)"
    by simp
  have big: "list_ex (\<lambda>r. \<bar>r\<bar> > 1 / 10 ^ 7) [1 :: real]"
    by simp
  from hamiltonian_array_lattice_projection[OF sy A ls sc, of False]
  have "fst (hamiltonian_array ?syst (Some 0) (Num 0) (Num 0) (Num 1) False [[(''t'', Num 1)]]) =
        (if list_ex (\<lambda>r. \<bar>r\<bar> > 1 / 10 ^ 7) [1 :: real]
         then Inl (RuntimeError no_lattice_momentum)
         else map_sum id (\<lambda>M. (\<lparr> array_shape = 1 # mat_shape M, array_blocks = [M] \<rparr>,
                                if False then Some [] else None))
                (hamiltonian_submatrix ?syst ([[(''t'', Num 1)]] ! 0) (map Num [0, 0])))"
    by blast
  then show "fst (hamiltonian_array ?syst (Some 0) (Num 0) (Num 0) (Num 1) False [[(''t'', Num 1)]])
         = Inl (RuntimeError no_lattice_momentum)"
    using big by (simp only: if_True)
qed

section \<open>The caller's parameter bundle\<close>

text \<open>\<open>hamiltonian\<close> writes to the object \<open>pars\<close> only.\<close>

lemma hamiltonian_heap:
  "snd (hamiltonian syst mtl k_x k_y k_z pars values h) =
     h[pars := fold (\<lambda>(key, v). AList.update key (Num v)) values (h ! pars)]"
  by (simp add: hamiltonian_def Let_def split: sum.splits)

lemma eval_grid_frame:
  "n \<le> pars \<Longrightarrow> take n (snd (eval_grid syst mtl k_x k_y k_z pars names points h)) = take n h"
proof (induction points arbitrary: h)
  case Nil
  then show ?case by simp
next
  case (Cons point rest)
  obtain r h' where step: "hamiltonian syst mtl k_x k_y k_z pars (zip names point) h = (r, h')"
    by (cases "hamiltonian syst mtl k_x k_y k_z pars (zip names point) h")
  then have "h' = h[pars := fold (\<lambda>(key, v). AList.update key (Num v)) (zip names point) (h ! pars)]"
    using hamiltonian_heap[of syst mtl k_x k_y k_z pars "zip names point" h] by simp
  then have first: "take n h' = take n h"
    using Cons.prems by simp
  show ?case
  proof (cases r)
    case (Inl e)
    with step first show ?thesis by simp
  next
    case (Inr M)
    obtain r' h'' where rest: "eval_grid syst mtl k_x k_y k_z pars names rest h' = (r', h'')"
      by (cases "eval_grid syst mtl k_x k_y k_z pars names rest h'")
    have "take n (snd (eval_grid syst mtl k_x k_y k_z pars names rest h')) = take n h'"
      using Cons.IH[OF Cons.prems] .
    with rest have "take n h'' = take n h'" by simp
    with step Inr first rest show ?thesis
      by (cases r') simp_all
  qed
qed

text \<open>
  C9. For every call of \<open>hamiltonian_array\<close> with a parameter bundle, the bundle of the
  caller holds the same fields with the same values after the call as before, whether
  the call returns or raises, and so does every other object that existed before: the
  per-grid-point updates go to the copy \<open>pars = copy(p)\<close>, a new object.
\<close>

theorem hamiltonian_array_leaves_bundle:
  assumes "a < length h"
  shows "snd (hamiltonian_array syst (Some a) k_x k_y k_z return_grid h) ! a = h ! a
       \<and> take (length h) (snd (hamiltonian_array syst (Some a) k_x k_y k_z return_grid h)) = h"
proof -
  let ?h = "h @ [h ! a]"
  have grid: "take (length h) h' = h"
    if "eval_grid syst mtl k_x k_y k_z (length h) names points ?h = (r, h')"
    for mtl names points r h'
    using that eval_grid_frame[of "length h" "length h" syst mtl k_x k_y k_z names points ?h]
    by simp
  have all: "take (length h) (snd (hamiltonian_array syst (Some a) k_x k_y k_z return_grid h)) = h"
    by (auto simp add: hamiltonian_array_def copy_namespace_def Let_def
             simp del: add_momenta.simps
             split: sum.splits prod.splits list.splits
             dest: grid)
  then have "take (length h) (snd (hamiltonian_array syst (Some a) k_x k_y k_z return_grid h)) ! a
      = h ! a"
    by simp
  then have "snd (hamiltonian_array syst (Some a) k_x k_y k_z return_grid h) ! a = h ! a"
    using assms by simp
  with all show ?thesis by simp
qed

text \<open>
  A sweep over \<open>m\<close> and \<open>k_x\<close> on the infinite sheet: the bundle of the caller, at
  reference 0, is as it was.
\<close>

theorem hamiltonian_array_leaves_bundle_witness:
  "\<exists>b. infiniteSystem 20 = Inr b \<and>
     snd (hamiltonian_array (sheet_system b) (Some 0) (Seq [0, 1, 2]) (Num 0) (Num 0) False
            [[(''t'', Num 1), (''t_2'', Num 0), (''m'', Seq [0, 1]), (''phi'', Num (pi / 2))]]) ! 0
       = [(''t'', Num 1), (''t_2'', Num 0), (''m'', Seq [0, 1]), (''phi'', Num (pi / 2))]"
proof -
  obtain b where b: "infiniteSystem 20 = Inr b"
    using infiniteSystem_builder by blast
  have "(0::nat) < length [[(''t'', Num 1), (''t_2'', Num 0), (''m'', Seq [0, 1]), (''phi'', Num (pi / 2))]]"
    by simp
  from hamiltonian_array_leaves_bundle[OF this, of "sheet_system b" "Seq [0, 1, 2]" "Num 0" "Num 0" False]
  have "snd (hamiltonian_array (sheet_system b) (Some 0) (Seq [0, 1, 2]) (Num 0) (Num 0) False
            [[(''t'', Num 1), (''t_2'', Num 0), (''m'', Seq [0, 1]), (''phi'', Num (pi / 2))]]) ! 0
       = [[(''t'', Num 1), (''t_2'', Num 0), (''m'', Seq [0, 1]), (''phi'', Num (pi / 2))]] ! 0"
    by (rule conjunct1)
  with b show ?thesis by simp
qed

text \<open>The copy, at reference 1, holds the values of the last grid point.\<close>

lemma hamiltonian_array_updates_copy:
  "\<exists>b. infiniteSystem 20 = Inr b \<and>
     snd (hamiltonian_array (sheet_system b) (Some 0) (Seq [0, 1, 2]) (Num 0) (Num 0) False
            [[(''t'', Num 1), (''t_2'', Num 0), (''m'', Seq [0, 1]), (''phi'', Num (pi / 2))]]) ! 1
       = [(''t'', Num 1), (''t_2'', Num 0), (''m'', Num 1), (''phi'', Num (pi / 2)), (''k_x'', Num 2)]"
  by (simp add: infiniteSystem_builder sheet_evaluation)

section \<open>Sweeping \<open>m\<close> and \<open>k_x\<close>: the order of the axes\<close>

lemma changing_of_pars_single:
  assumes "distinct (map fst ns)"
    and "map_of ns name = Some (Seq xs)"
    and "list_all (\<lambda>kv. fst kv = name \<or> \<not> is_Iterable (snd kv)) ns"
  shows "changing_of_pars ns = [(name, xs)]"
proof -
  have "(name, Seq xs) \<in> set ns"
    using assms(2) by (rule map_of_SomeD)
  then obtain pre post where ns: "ns = pre @ (name, Seq xs) # post"
    by (auto dest: split_list)
  have "name \<notin> fst ` set pre" and "name \<notin> fst ` set post"
    using assms(1) unfolding ns by auto
  then have "list_all (\<lambda>kv. \<not> is_Iterable (snd kv)) pre"
    and "list_all (\<lambda>kv. \<not> is_Iterable (snd kv)) post"
    using assms(3) unfolding ns by (auto simp: list_all_iff)
  then show ?thesis
    unfolding ns changing_of_pars_def by (simp add: fold_changing_scalars)
qed

lemma eval_grid_length:
  "eval_grid syst mtl k_x k_y k_z pars names points h = (Inr Ms, h') \<Longrightarrow>
     length Ms = length points"
proof (induction points arbitrary: h Ms)
  case Nil
  then show ?case by simp
next
  case (Cons point rest)
  then show ?case
    by (auto split: prod.splits sum.splits)
qed

lemma sorted_m_k_x:
  "sort_key fst [(''m'', ms), (''k_x'', kxs)] = [(''k_x'', kxs), (''m'', ms)]"
  by simp

text \<open>
  C2, as amended. For every parameter bundle in which \<open>m\<close> is a sequence of length
  \<open>L1\<close> and every other field is a scalar, with \<open>k_x\<close> a sequence of length \<open>L2\<close> and
  \<open>k_y\<close>, \<open>k_z\<close> scalars, an array that \<open>hamiltonian_array\<close> returns has the shape
  \<open>(L2, L1, n1, n2)\<close>: the swept names are sorted, \<open>k_x\<close> sorts before \<open>m\<close>, so the axis
  of \<open>k_x\<close> comes first and the axis of \<open>m\<close> second, followed by the two matrix axes. The
  grid returned with it lists \<open>k_x\<close>, then \<open>m\<close>, and the array holds \<open>L2 * L1\<close> matrices.
\<close>

theorem hamiltonian_array_axis_order:
  assumes "distinct (map fst (h ! a))"
    and "map_of (h ! a) ''m'' = Some (Seq ms)"
    and "list_all (\<lambda>kv. fst kv = ''m'' \<or> \<not> is_Iterable (snd kv)) (h ! a)"
    and "fst (hamiltonian_array syst (Some a) (Seq kxs) (Num ky) (Num kz) return_grid h)
           = Inr (arr, grid)"
  shows "(\<exists>n1 n2. array_shape arr = [length kxs, length ms, n1, n2])
       \<and> grid = (if return_grid then Some [(''k_x'', kxs), (''m'', ms)] else None)
       \<and> length (array_blocks arr) = length kxs * length ms"
proof -
  have ch: "changing_of_pars (h ! a) = [(''m'', ms)]"
    using assms(1,2,3) by (rule changing_of_pars_single)
  have am: "add_momenta [(''k_x'', Seq kxs), (''k_y'', Num ky), (''k_z'', Num kz)] [(''m'', ms)]
      = Inr [(''m'', ms), (''k_x'', kxs)]"
    by simp
  obtain mtl where mtl: "make_momentum_to_lattice (system_symmetry syst) = Inr mtl"
    using assms(4)
    by (cases "make_momentum_to_lattice (system_symmetry syst)")
       (auto simp: hamiltonian_array_def copy_namespace_def)
  let ?grid = "eval_grid syst mtl (Seq kxs) (Num ky) (Num kz) (length h) [''k_x'', ''m'']
                 (product_lists [kxs, ms]) (h @ [h ! a])"
  obtain r h' where run: "?grid = (r, h')"
    by (cases ?grid)
  have unfolded: "fst (hamiltonian_array syst (Some a) (Seq kxs) (Num ky) (Num kz) return_grid h) =
      (case r of
         Inl e \<Rightarrow> Inl e
       | Inr hamiltonians \<Rightarrow>
           (case hamiltonians of
              [] \<Rightarrow> Inl IndexError
            | M0 # Ms \<Rightarrow>
                if list_all (\<lambda>M. mat_shape M = mat_shape M0) hamiltonians
                then Inr (\<lparr> array_shape = [length kxs, length ms] @ mat_shape M0,
                            array_blocks = hamiltonians \<rparr>,
                          if return_grid then Some [(''k_x'', kxs), (''m'', ms)] else None)
                else Inl (ValueError ''inhomogeneous shape'')))"
    using mtl run
    by (simp add: hamiltonian_array_def copy_namespace_def ch am sorted_m_k_x Let_def
             del: add_momenta.simps sort_key_simps product_lists.simps
             split: sum.splits list.splits)
  from assms(4) obtain hamiltonians where r: "r = Inr hamiltonians"
    unfolding unfolded by (cases r) auto
  from assms(4) obtain M0 Ms where hs: "hamiltonians = M0 # Ms"
    unfolding unfolded r by (cases hamiltonians) auto
  from assms(4) have res: "arr = \<lparr> array_shape = [length kxs, length ms] @ mat_shape M0,
                            array_blocks = hamiltonians \<rparr>"
    and g: "grid = (if return_grid then Some [(''k_x'', kxs), (''m'', ms)] else None)"
    unfolding unfolded r hs by (auto split: if_splits)
  have "length hamiltonians = length (product_lists [kxs, ms])"
    using run r eval_grid_length by fastforce
  then have n: "length (array_blocks arr) = length kxs * length ms"
    using res by (simp add: length_concat comp_def sum_list_triv)
  have "\<exists>n1 n2. array_shape arr = [length kxs, length ms, n1, n2]"
    using res by (simp add: mat_shape_def)
  with g n show ?thesis by simp
qed

text \<open>
  The infinite sheet with \<open>m = [1/2]\<close> and \<open>k_x = [0, 1]\<close>: the call returns, and the shape
  starts with 2, the length of \<open>k_x\<close>, then 1, the length of \<open>m\<close>.
\<close>

theorem hamiltonian_array_axis_order_witness:
  "\<exists>b arr grid. infiniteSystem 20 = Inr b \<and>
     fst (hamiltonian_array (sheet_system b) (Some 0) (Seq [0, 1]) (Num 0) (Num 0) True
            [[(''t'', Num 1), (''t_2'', Num 0), (''m'', Seq [1 / 2]), (''phi'', Num (pi / 2))]])
       = Inr (arr, grid) \<and>
     (\<exists>n1 n2. array_shape arr = [2, 1, n1, n2]) \<and>
     grid = Some [(''k_x'', [0, 1]), (''m'', [1 / 2])]"
proof -
  let ?ns = "[(''t'', Num 1), (''t_2'', Num 0), (''m'', Seq [1 / 2]), (''phi'', Num (pi / 2))]"
  obtain b where b: "infiniteSystem 20 = Inr b"
    and eq: "b = \<lparr> symmetry = TranslationalSymmetry2 [1, 0] [1 / 2, sqrt 3 / 2],
           site_shape = (\<lambda>pos. True), onsite_term = onsite,
           hopping_terms = [(honeycomb_neighbors, nnHopping), (nnnHoppings_a, nnnHopping),
                            (nnnHoppings_b, nnnHopping)] \<rparr>"
    using infiniteSystem_builder[of 20] by simp
  have "\<exists>arr grid. fst (hamiltonian_array (sheet_system b) (Some 0) (Seq [0, 1]) (Num 0) (Num 0) True
            [?ns]) = Inr (arr, grid)"
    unfolding eq by (simp add: sheet_evaluation)
  then obtain arr grid where run:
    "fst (hamiltonian_array (sheet_system b) (Some 0) (Seq [0, 1]) (Num 0) (Num 0) True [?ns])
       = Inr (arr, grid)"
    by blast
  have d: "distinct (map fst ([?ns] ! 0))" by simp
  have m: "map_of ([?ns] ! 0) ''m'' = Some (Seq [1 / 2])" by simp
  have others: "list_all (\<lambda>kv. fst kv = ''m'' \<or> \<not> is_Iterable (snd kv)) ([?ns] ! 0)" by simp
  from hamiltonian_array_axis_order[OF d m others run]
  have "(\<exists>n1 n2. array_shape arr = [2, 1, n1, n2]) \<and> grid = Some [(''k_x'', [0, 1]), (''m'', [1 / 2])]"
    by (auto simp: numeral_2_eq_2)
  with b run show ?thesis by blast
qed

text \<open>
  C2 as stated fails: on the infinite sheet with \<open>m\<close> of length \<open>L1 = 2\<close> and \<open>k_x\<close> of
  length \<open>L2 = 3\<close> the shape of the array is (3, 2, 2, 2), so the leading shape is
  \<open>(L2, L1)\<close> and not \<open>(L1, L2)\<close>.
\<close>

theorem hamiltonian_array_shape_m2_kx3:
  "\<exists>b. infiniteSystem 20 = Inr b \<and>
     map_sum id (\<lambda>r. array_shape (fst r))
       (fst (hamiltonian_array (sheet_system b) (Some 0) (Seq [0, 1, 2]) (Num 0) (Num 0) False
              [[(''t'', Num 1), (''t_2'', Num 0), (''m'', Seq [0, 1]), (''phi'', Num (pi / 2))]]))
       = Inr [3, 2, 2, 2]"
  by (simp add: infiniteSystem_builder sheet_evaluation)

section \<open>Hermiticity\<close>

lemma cnj_sum_list: "cnj (sum_list xs) = sum_list (map cnj xs)"
  by (induction xs) simp_all

lemma cnj_if: "cnj (if b then x else y) = (if b then cnj x else cnj y)"
  by simp

lemma cnj_bond_entry_triple: "cnj (bond_entry c r (i, j, pv)) = bond_entry r c (i, j, pv)"
  unfolding bond_entry_def prod.case complex_cnj_add cnj_if complex_cnj_cnj complex_cnj_zero
  by (simp only: add.commute conj_commute)

lemma cnj_bond_entry: "cnj (bond_entry c r ijv) = bond_entry r c ijv"
proof -
  obtain i j pv where "ijv = (i, j, pv)"
    using prod_cases3 by blast
  then show ?thesis
    by (simp only: cnj_bond_entry_triple)
qed

lemma onsite_values_length:
  "onsite_values f sites p = Inr ovs \<Longrightarrow> length ovs = length sites"
  by (induction sites arbitrary: ovs) (auto split: sum.splits)

text \<open>The onsite function of the model returns real numbers.\<close>

lemma onsite_values_real:
  "onsite_values onsite sites p = Inr ovs \<Longrightarrow> list_all (\<lambda>v. cnj v = v) ovs"
proof (induction sites arbitrary: ovs)
  case Nil
  then show ?case by simp
next
  case (Cons fam fams)
  then show ?case
    by (auto simp: onsite_def split: sum.splits if_splits)
qed

lemma matrix_entry_cnj:
  assumes "list_all (\<lambda>v. cnj v = v) ovs" and "r < length ovs"
  shows "cnj (matrix_entry ovs pvs c r) = matrix_entry ovs pvs r c"
proof -
  have "cnj (ovs ! r) = ovs ! r"
    using assms by (simp add: list_all_length)
  then show ?thesis
    by (auto simp add: matrix_entry_def cnj_sum_list comp_def cnj_bond_entry)
qed

text \<open>A square matrix given by its entries, and its conjugate transpose.\<close>

lemma conjugate_transpose_entries:
  "conjugate_transpose (map (\<lambda>r. map (\<lambda>c. e r c) [0..<n]) [0..<n])
     = map (\<lambda>r. map (\<lambda>c. cnj (e c r)) [0..<n]) [0..<n]"
proof -
  let ?M = "map (\<lambda>r. map (\<lambda>c. e r c) [0..<n]) [0..<n]"
  have "transpose ?M = map (\<lambda>i. map (\<lambda>j. ?M ! j ! i) [0..<length ?M]) [0..<n]"
    by (rule transpose_rectangle) simp_all
  also have "\<dots> = map (\<lambda>i. map (\<lambda>j. e j i) [0..<n]) [0..<n]"
    by simp
  finally show ?thesis
    by (simp add: conjugate_transpose_def comp_def)
qed

text \<open>
  Whatever sites and bonds kwant enumerates, the matrix of a system with the model's
  onsite function equals its conjugate transpose.
\<close>

lemma finalized_hamiltonian_hermitian:
  assumes "finalized_hamiltonian onsite sites bonds p k = Inr M"
  shows "conjugate_transpose M = M"
proof -
  from assms obtain ks ovs pvs where
    ovs: "onsite_values onsite sites p = Inr ovs"
    and M: "M = map (\<lambda>r. map (\<lambda>c. matrix_entry ovs pvs r c) [0..<length sites]) [0..<length sites]"
    by (auto simp: finalized_hamiltonian_def split: sum.splits)
  have real: "list_all (\<lambda>v. cnj v = v) ovs"
    using ovs by (rule onsite_values_real)
  have len: "length ovs = length sites"
    using ovs by (rule onsite_values_length)
  have "conjugate_transpose M
      = map (\<lambda>r. map (\<lambda>c. cnj (matrix_entry ovs pvs c r)) [0..<length sites]) [0..<length sites]"
    unfolding M by (rule conjugate_transpose_entries)
  also have "\<dots> = M"
    unfolding M using matrix_entry_cnj[OF real] len by simp
  finally show ?thesis .
qed

text \<open>Every matrix of the array is a value of the system's Hamiltonian.\<close>

lemma eval_grid_blocks:
  assumes "\<And>p k M. hamiltonian_submatrix syst p k = Inr M \<Longrightarrow> P M"
    and "eval_grid syst mtl k_x k_y k_z pars names points h = (Inr Ms, h')"
  shows "list_all P Ms"
  using assms(2)
proof (induction points arbitrary: h Ms h')
  case Nil
  then show ?case by simp
next
  case (Cons point rest)
  obtain r h1 where step: "hamiltonian syst mtl k_x k_y k_z pars (zip names point) h = (r, h1)"
    by (cases "hamiltonian syst mtl k_x k_y k_z pars (zip names point) h")
  obtain r' h2 where rest: "eval_grid syst mtl k_x k_y k_z pars names rest h1 = (r', h2)"
    by (cases "eval_grid syst mtl k_x k_y k_z pars names rest h1")
  from Cons.prems step rest obtain M Ms' where r: "r = Inr M" and r': "r' = Inr Ms'"
    and Ms: "Ms = M # Ms'"
    by (cases r; cases r') auto
  have "P M"
    using step r assms(1) by (auto simp: hamiltonian_def Let_def split: sum.splits)
  moreover have "list_all P Ms'"
    using Cons.IH rest r' by simp
  ultimately show ?case using Ms by simp
qed

lemma hamiltonian_array_blocks:
  assumes "\<And>p k M. hamiltonian_submatrix syst p k = Inr M \<Longrightarrow> P M"
    and "fst (hamiltonian_array syst p k_x k_y k_z return_grid h) = Inr (arr, grid)"
  shows "list_all P (array_blocks arr)"
proof -
  have grid: "list_all P Ms"
    if "eval_grid syst mtl k_x k_y k_z pars names points h1 = (Inr Ms, h')"
    for mtl pars names points h1 Ms h'
    using assms(1) that by (rule eval_grid_blocks)
  show ?thesis
    using assms(2) assms(1)
    by (auto simp add: hamiltonian_array_def copy_namespace_def new_namespace_def Let_def
             simp del: add_momenta.simps
             split: sum.splits prod.splits list.splits option.splits if_splits
             dest: grid)
qed

text \<open>
  Without the flux term the matrix of the infinite sheet has the real onsite values
  \<open>m\<close> and \<open>-m\<close> on the diagonal and the real hopping \<open>t\<close> times the sum of the three
  nearest-neighbour phases off it.
\<close>

lemma sheet_hamiltonian_no_flux:
  assumes "getattr p ''m'' = Inr m" and "getattr p ''t'' = Inr t" and "getattr p ''t_2'' = Inr 0"
  shows "finalized_hamiltonian onsite sheet_sites
          (sheet_bonds [(honeycomb_neighbors, nnHopping), (nnnHoppings_a, nnnHopping),
                       (nnnHoppings_b, nnnHopping)]) p [Num k1, Num k2] =
    Inr [[complex_of_real m,
          complex_of_real t * (1 + cis (- k2) + cis (k1 - k2))],
         [complex_of_real t * cnj (1 + cis (- k2) + cis (k1 - k2)),
          - complex_of_real m]]"
  using assms
  by (simp add: finalized_hamiltonian_def sheet_sites_def sheet_bonds_def honeycomb_neighbors_def
      nnnHoppings_a_def nnnHoppings_b_def onsite_def nnHopping_def nnnHopping_def
      matrix_entry_def bond_entry_def upt_2 dot_def algebra_simps)

text \<open>
  C6. For every parameter bundle, in particular every bundle with \<open>t_2 = 0\<close>, and all
  momenta, every matrix of the array \<open>hamiltonian_array\<close> returns for a system built by
  \<open>haldaneModel\<close> equals its own conjugate transpose, exactly: the onsite values \<open>m\<close> and
  \<open>-m\<close> are real, and every hopping enters with its conjugate at the mirrored entry.
  This holds for each boundary kind and for whatever sites and bonds kwant enumerates.
\<close>

theorem haldane_hamiltonian_hermitian:
  assumes "haldaneModel neighbors w boundary pVecs bAtoms = Inr b"
    and "fst (hamiltonian_array (wraparound_finalized b sites bonds) p k_x k_y k_z return_grid h)
           = Inr (arr, grid)"
  shows "list_all (\<lambda>M. conjugate_transpose M = M) (array_blocks arr)"
proof -
  have ons: "onsite_term b = onsite"
    using assms(1) by (auto simp: haldaneModel_def split: if_splits)
  have "conjugate_transpose M = M"
    if "hamiltonian_submatrix (wraparound_finalized b sites bonds) q k = Inr M" for q k M
    using that finalized_hamiltonian_hermitian[of sites bonds q k M]
    by (simp add: wraparound_finalized_def ons)
  then show ?thesis
    using assms(2) by (rule hamiltonian_array_blocks)
qed

text \<open>
  The infinite sheet with \<open>t_2 = 0\<close>, swept over \<open>k_x = [0, 1]\<close> at \<open>k_y = 1/2\<close>: the call
  returns two matrices, each equal to its conjugate transpose.
\<close>

theorem haldane_hamiltonian_hermitian_witness:
  "\<exists>b arr grid. infiniteSystem 20 = Inr b \<and>
     fst (hamiltonian_array (sheet_system b) (Some 0) (Seq [0, 1]) (Num (1 / 2)) (Num 0) False
            [[(''t'', Num 1), (''t_2'', Num 0), (''m'', Num (1 / 4)), (''phi'', Num (pi / 2))]])
       = Inr (arr, grid) \<and>
     length (array_blocks arr) = 2 \<and>
     list_all (\<lambda>M. conjugate_transpose M = M) (array_blocks arr)"
proof -
  let ?ns = "[(''t'', Num 1), (''t_2'', Num 0), (''m'', Num (1 / 4)), (''phi'', Num (pi / 2))]"
  obtain b where b: "infiniteSystem 20 = Inr b"
    and eq: "b = \<lparr> symmetry = TranslationalSymmetry2 [1, 0] [1 / 2, sqrt 3 / 2],
           site_shape = (\<lambda>pos. True), onsite_term = onsite,
           hopping_terms = [(honeycomb_neighbors, nnHopping), (nnnHoppings_a, nnnHopping),
                            (nnnHoppings_b, nnnHopping)] \<rparr>"
    using infiniteSystem_builder[of 20] by simp
  have "\<exists>arr grid. fst (hamiltonian_array (sheet_system b) (Some 0) (Seq [0, 1]) (Num (1 / 2)) (Num 0)
            False [?ns]) = Inr (arr, grid) \<and> length (array_blocks arr) = 2"
    unfolding eq by (simp add: sheet_evaluation)
  then obtain arr grid where run:
    "fst (hamiltonian_array (sheet_system b) (Some 0) (Seq [0, 1]) (Num (1 / 2)) (Num 0) False [?ns])
       = Inr (arr, grid)"
    and two: "length (array_blocks arr) = 2"
    by blast
  have model: "haldaneModel honeycomb_neighbors 20 ''infinite'' default_pVecs default_bAtoms = Inr b"
    using b by (simp add: infiniteSystem_def)
  have "list_all (\<lambda>M. conjugate_transpose M = M) (array_blocks arr)"
    using haldane_hamiltonian_hermitian[OF model, of sheet_sites "sheet_bonds (hopping_terms b)"]
      run by (simp add: sheet_system_def)
  with b run two show ?thesis by blast
qed

text \<open>
  On the infinite sheet a call at one point with \<open>t_2 = 0\<close> returns, for every scalar
  momentum: the lattice momenta are \<open>k . a\<^sub>1\<close> and \<open>k . a\<^sub>2\<close>, and the array holds the one
  matrix with \<open>m\<close>, \<open>-m\<close> on the diagonal and \<open>t\<close> times the sum of the nearest-neighbour
  phases off it.
\<close>

lemma infiniteSystem_no_flux:
  assumes "infiniteSystem w = Inr b"
    and "list_all (\<lambda>kv. \<not> is_Iterable (snd kv)) (h ! a)"
    and "getattr (h ! a) ''m'' = Inr m"
    and "getattr (h ! a) ''t'' = Inr t"
    and "getattr (h ! a) ''t_2'' = Inr 0"
    and "k1 = kx" and "k2 = kx / 2 + ky * sqrt 3 / 2"
  shows "fst (hamiltonian_array (sheet_system b) (Some a) (Num kx) (Num ky) (Num kz) return_grid h) =
     Inr (\<lparr> array_shape = [1, 2, 2],
            array_blocks =
              [[[complex_of_real m, complex_of_real t * (1 + cis (- k2) + cis (k1 - k2))],
                [complex_of_real t * cnj (1 + cis (- k2) + cis (k1 - k2)), - complex_of_real m]]] \<rparr>,
          if return_grid then Some [] else None)"
proof -
  have b: "b = \<lparr> symmetry = TranslationalSymmetry2 [1, 0] [1 / 2, sqrt 3 / 2],
           site_shape = (\<lambda>pos. True), onsite_term = onsite,
           hopping_terms = [(honeycomb_neighbors, nnHopping), (nnnHoppings_a, nnnHopping),
                            (nnnHoppings_b, nnnHopping)] \<rparr>"
    using assms(1) infiniteSystem_builder[of w] by simp
  obtain A where A: "projection_matrix [1, 0] [1 / 2, sqrt 3 / 2] = Inr A"
    by (simp add: projection_matrix_def dot_def Let_def)
  have mtl: "make_momentum_to_lattice (system_symmetry (sheet_system b)) = Inr (Lattice2 A 2)"
    using A by (simp add: b sheet_system_def wraparound_finalized_def make_momentum_to_lattice_def)
  have "momentum_to_lattice (Lattice2 A (length [1 / 2, sqrt 3 / 2 :: real])) [Num kx, Num ky, Num kz]
      = Inr [Num (dot [1, 0] [kx, ky]), Num (dot [1 / 2, sqrt 3 / 2] [kx, ky])]"
    by (rule momentum_to_lattice_plane[OF A]) simp_all
  then have kl: "momentum_to_lattice (Lattice2 A 2) [Num kx, Num ky, Num kz] = Inr [Num k1, Num k2]"
    using assms(6,7) by (simp add: dot_def numeral_2_eq_2 mult.commute del: momentum_to_lattice.simps)
  have H: "hamiltonian_submatrix (sheet_system b) (h ! a) [Num k1, Num k2] =
     Inr [[complex_of_real m, complex_of_real t * (1 + cis (- k2) + cis (k1 - k2))],
          [complex_of_real t * cnj (1 + cis (- k2) + cis (k1 - k2)), - complex_of_real m]]"
    using sheet_hamiltonian_no_flux[OF assms(3,4,5)]
    by (simp add: b sheet_system_def wraparound_finalized_def)
  show ?thesis
    using mtl kl H changing_of_pars_scalars[OF assms(2)]
    by (simp add: hamiltonian_array_def copy_namespace_def mat_shape_def
             del: momentum_to_lattice.simps)
qed

section \<open>The shape of the Berry curvature array\<close>

text \<open>
  C1. For every grid of \<open>k_x\<close> values by \<open>k_y\<close> values, the array the Berry curvature
  engine returns has the shape \<open>(len(k_x) - 2, len(k_y) - 2, num_bands)\<close>, real values at
  the interior grid points only; for \<open>N\<close> by \<open>N\<close> points that is \<open>(N - 2, N - 2, num_bands)\<close>.
  An axis with fewer than two points has no interior point, and the length is 0.
\<close>

theorem berryCurvature_shape:
  "length (berryCurvature curvature num_bands k_x k_y) = length k_x - 2
   \<and> list_all (\<lambda>row. length row = length k_y - 2
                   \<and> list_all (\<lambda>cell. length cell = num_bands) row)
        (berryCurvature curvature num_bands k_x k_y)"
proof -
  have "length [1..<n - 1] = n - 2" for n :: nat
    by simp
  then show ?thesis
    by (simp add: berryCurvature_def list_all_iff)
qed

text \<open>A grid of 5 by 5 points and two bands: the shape is (3, 3, 2).\<close>

theorem berryCurvature_shape_witness:
  "length (berryCurvature (\<lambda>i j n. 0) 2 [0, 1, 2, 3, 4] [0, 1, 2, 3, 4]) = 3
   \<and> list_all (\<lambda>row. length row = 3 \<and> list_all (\<lambda>cell. length cell = 2) row)
        (berryCurvature (\<lambda>i j n. 0) 2 [0, 1, 2, 3, 4] [0, 1, 2, 3, 4])"
proof -
  have five: "length [0, 1, 2, 3, 4 :: real] - 2 = 3"
    by simp
  from berryCurvature_shape[of "\<lambda>i j n. 0" 2 "[0, 1, 2, 3, 4]" "[0, 1, 2, 3, 4]"]
  show ?thesis
    unfolding five .
qed

text \<open>
  What \<open>paralelFunc\<close> writes is the engine's array sliced once more on both grid axes.
\<close>

lemma paralelFunc_data_shape:
  "length (paralelFunc_data curvature num_bands k) = length k - 4
   \<and> list_all (\<lambda>row. length row = length k - 4) (paralelFunc_data curvature num_bands k)"
  by (auto simp add: paralelFunc_data_def slice_1_minus_1_def berryCurvature_def list_all_iff
      dest!: in_set_takeD in_set_dropD)

end
